theory Spec2Isabelle
  imports Main "HOL-Library.AList"
begin

section \<open>Mantra-Pair: the pairing session manager of \<^verbatim>\<open>index.js\<close>\<close>

text \<open>
  \<^verbatim>\<open>src/index.js\<close> holds two revisions of the server. The second one (from
  \<^verbatim>\<open>const PAIR_API_KEY\<close> on) is the one \<^verbatim>\<open>public/app.js\<close> talks to: routes
  \<^verbatim>\<open>/api/pair\<close> and \<^verbatim>\<open>/api/sessions/:id/events\<close>, functions \<^verbatim>\<open>startPairing\<close>,
  \<^verbatim>\<open>cleanupSession\<close>, \<^verbatim>\<open>endSocketOnly\<close>, \<^verbatim>\<open>isRetryableDisconnectReason\<close>,
  \<^verbatim>\<open>exportTokensFromCreds\<close>. The first revision has \<^verbatim>\<open>shouldRetry\<close> and
  \<^verbatim>\<open>exportSessionTokens\<close>. Both are embedded under the names they have in the source.

  Conventions. A JavaScript number that the code only counts with or compares is an
  \<^typ>\<open>int\<close>. A JavaScript string is a \<^typ>\<open>string\<close>, a list of 8-bit code units; a
  \<^verbatim>\<open>Buffer\<close> is a list of bytes, also of type \<^typ>\<open>char\<close>. \<^verbatim>\<open>undefined\<close> and
  \<^verbatim>\<open>null\<close> are \<^term>\<open>None\<close>.
\<close>

subsection \<open>Configuration and the library's disconnect codes\<close>

text \<open>
  The constants read from \<^verbatim>\<open>process.env\<close> at the top of the file
  (\<^verbatim>\<open>Number(process.env.MAX_RETRIES || 8)\<close> and so on), as a record, so that every
  theorem holds for every configuration.
\<close>

record config =
  MAX_RETRIES :: int
  RETRY_DELAY_MS :: int
  RETRY_DELAY_MAX_MS :: int
  SESSION_TTL_MS :: int
  PAIR_API_KEY :: string
  EXPORT_ENCRYPTED :: bool
  SESSION_SECRET :: string

text \<open>
  \<^verbatim>\<open>DisconnectReason\<close> is an enum of the Baileys library (numeric status codes); the
  library is not part of the repository, so the enum is a parameter.
\<close>

record DisconnectReason =
  connectionClosed :: int
  connectionLost :: int
  timedOut :: int
  restartRequired :: int
  unavailableService :: int
  loggedOut :: int
  forbidden :: int

text \<open>The values the library gives the enum; used for concrete instances only.\<close>

definition baileys :: DisconnectReason where
  "baileys = \<lparr> connectionClosed = 428, connectionLost = 408, timedOut = 408,
     restartRequired = 515, unavailableService = 503, loggedOut = 401, forbidden = 403 \<rparr>"

definition defaults :: config where
  "defaults = \<lparr> MAX_RETRIES = 8, RETRY_DELAY_MS = 4000, RETRY_DELAY_MAX_MS = 30000,
     SESSION_TTL_MS = 300000, PAIR_API_KEY = [], EXPORT_ENCRYPTED = False,
     SESSION_SECRET = [] \<rparr>"

subsection \<open>Retry policy\<close>

text \<open>
  First revision, \<^verbatim>\<open>shouldRetry(retries, reason)\<close>:
  \<^verbatim>\<open>
  if (retries >= MAX_RETRIES) return false;
  if (reason === undefined || reason === null) return true;
  const retryable = [connectionClosed, connectionLost, timedOut, restartRequired];
  return retryable.includes(reason);
  \<close>
\<close>

definition shouldRetry :: "config \<Rightarrow> DisconnectReason \<Rightarrow> int \<Rightarrow> int option \<Rightarrow> bool" where
  "shouldRetry cfg dr retries reason =
     (if retries \<ge> MAX_RETRIES cfg then False
      else case reason of
        None \<Rightarrow> True
      | Some r \<Rightarrow> r \<in> set [connectionClosed dr, connectionLost dr, timedOut dr,
                             restartRequired dr])"

text \<open>
  Second revision, \<^verbatim>\<open>isRetryableDisconnectReason(reason)\<close>: the same list with
  \<^verbatim>\<open>DisconnectReason.unavailableService\<close> added, and no attempt count.
\<close>

definition retryable :: "DisconnectReason \<Rightarrow> int list" where
  "retryable dr = [connectionClosed dr, connectionLost dr, timedOut dr,
                   restartRequired dr, unavailableService dr]"

definition isRetryableDisconnectReason :: "DisconnectReason \<Rightarrow> int option \<Rightarrow> bool" where
  "isRetryableDisconnectReason dr reason =
     (case reason of None \<Rightarrow> True | Some r \<Rightarrow> r \<in> set (retryable dr))"

text \<open>
  The condition both retry branches of \<^verbatim>\<open>startPairing\<close> test:
  \<^verbatim>\<open>isRetryableDisconnectReason(reason) && (s.retries || 0) < MAX_RETRIES\<close>.
\<close>

definition retryGate :: "config \<Rightarrow> DisconnectReason \<Rightarrow> int \<Rightarrow> int option \<Rightarrow> bool" where
  "retryGate cfg dr retries reason =
     (isRetryableDisconnectReason dr reason \<and> retries < MAX_RETRIES cfg)"

text \<open>
  The delay both branches then wait:
  \<^verbatim>\<open>Math.min(RETRY_DELAY_MAX_MS, RETRY_DELAY_MS * s.retries)\<close>.
\<close>

definition backoff :: "config \<Rightarrow> int \<Rightarrow> int" where
  "backoff cfg n = min (RETRY_DELAY_MAX_MS cfg) (RETRY_DELAY_MS cfg * n)"

subsection \<open>Phone validation\<close>

text \<open>
  \<^verbatim>\<open>
  function validatePhone(phone) {
    const cleaned = String(phone || '').replace(/\D/g, '');
    if (cleaned.length < 10 || cleaned.length > 15)
      return { ok: false, error: 'Phone number must be 10-15 digits' };
    return { ok: true, phone: cleaned };
  }
  \<close>
  \<^verbatim>\<open>\D\<close> is every code unit outside \<^verbatim>\<open>0-9\<close>. The argument is the \<^verbatim>\<open>phone\<close> field
  of the request body: a string, or absent. A code unit above 255, which a
  \<^typ>\<open>char\<close> cannot hold, is no digit either and would be removed like the others.
\<close>

definition isDigit :: "char \<Rightarrow> bool" where
  "isDigit c = (c \<in> set ''0123456789'')"

definition stripNonDigits :: "string \<Rightarrow> string" where
  "stripNonDigits s = filter isDigit s"

definition validatePhone :: "string option \<Rightarrow> string + string" where
  "validatePhone phone =
     (let cleaned = stripNonDigits (case phone of None \<Rightarrow> [] | Some p \<Rightarrow> p) in
      if length cleaned < 10 \<or> length cleaned > 15
      then Inl ''Phone number must be 10-15 digits''
      else Inr cleaned)"

subsection \<open>Base64, as \<^verbatim>\<open>Buffer\<close> does it\<close>

text \<open>
  \<^verbatim>\<open>buf.toString('base64')\<close>: three bytes give four characters of the standard
  alphabet, a last group of one or two bytes is padded with \<^verbatim>\<open>=\<close>.
\<close>

definition b64alphabet :: string where
  "b64alphabet = ''ABCDEFGHIJKLMNOPQRSTUVWXYZabcdefghijklmnopqrstuvwxyz0123456789+/''"

definition b64char :: "nat \<Rightarrow> char" where
  "b64char i = b64alphabet ! i"

fun sextets :: "nat list \<Rightarrow> nat list" where
  "sextets (a # b # c # r) =
     [a div 4, (a mod 4) * 16 + b div 16, (b mod 16) * 4 + c div 64, c mod 64] @ sextets r"
| "sextets [a, b] = [a div 4, (a mod 4) * 16 + b div 16, (b mod 16) * 4]"
| "sextets [a] = [a div 4, (a mod 4) * 16]"
| "sextets [] = []"

definition padding :: "nat \<Rightarrow> nat" where
  "padding n = (3 - n mod 3) mod 3"

definition base64_encode :: "string \<Rightarrow> string" where
  "base64_encode buf =
     map b64char (sextets (map of_char buf)) @ replicate (padding (length buf)) (CHR ''='')"

text \<open>
  \<^verbatim>\<open>Buffer.from(str, 'base64')\<close>: the decoder reads the standard and the URL-safe
  alphabet, skips every other character and stops at the first \<^verbatim>\<open>=\<close>; a last
  group of two or three characters gives one or two bytes, a single left-over
  character gives none.
\<close>

definition unbase64 :: "char \<Rightarrow> nat option" where
  "unbase64 c =
     (if c = CHR ''-'' then Some 62 else if c = CHR ''_'' then Some 63
      else map_of (zip b64alphabet [0 ..< 64]) c)"

fun octets :: "nat list \<Rightarrow> nat list" where
  "octets (s # t # u # v # r) =
     [s * 4 + t div 16, (t mod 16) * 16 + u div 4, (u mod 4) * 64 + v] @ octets r"
| "octets [s, t, u] = [s * 4 + t div 16, (t mod 16) * 16 + u div 4]"
| "octets [s, t] = [s * 4 + t div 16]"
| "octets [s] = []"
| "octets [] = []"

definition base64_decode :: "string \<Rightarrow> string" where
  "base64_decode str =
     map char_of (octets (List.map_filter unbase64 (takeWhile (\<lambda>c. c \<noteq> CHR ''='') str)))"

subsection \<open>Credential exporter\<close>

text \<open>First revision: \<^verbatim>\<open>return [`Mantra~${base64Creds}`]\<close>.\<close>

definition exportSessionTokens :: "string \<Rightarrow> string list" where
  "exportSessionTokens credsContent = [''Mantra~'' @ base64_encode credsContent]"

text \<open>
  \<^verbatim>\<open>
  function b64url(buf) {
    return Buffer.from(buf).toString('base64')
      .replace(/\+/g, '-').replace(/\//g, '_').replace(/=+$/g, '');
  }
  \<close>
\<close>

definition replaceAll :: "char \<Rightarrow> char \<Rightarrow> string \<Rightarrow> string" where
  "replaceAll a b str = map (\<lambda>c. if c = a then b else c) str"

definition stripTrailing :: "char \<Rightarrow> string \<Rightarrow> string" where
  "stripTrailing a str = rev (dropWhile (\<lambda>c. c = a) (rev str))"

definition b64url :: "string \<Rightarrow> string" where
  "b64url buf =
     stripTrailing (CHR ''='')
       (replaceAll (CHR ''/'') (CHR ''_'') (replaceAll (CHR ''+'') (CHR ''-'') (base64_encode buf)))"

text \<open>
  What the exporter and the decrypt script take from the Node runtime: \<^verbatim>\<open>crypto\<close>
  (scrypt, AES-256-GCM, random bytes), \<^verbatim>\<open>JSON\<close>, the UTF-8 codec of \<^verbatim>\<open>Buffer\<close>
  and the clock. None of it is code of the repository, so it is a parameter;
  \<^verbatim>\<open>gcmEncrypt key iv plaintext\<close> stands for \<^verbatim>\<open>createCipheriv\<close>, \<^verbatim>\<open>update\<close>,
  \<^verbatim>\<open>final\<close> and \<^verbatim>\<open>getAuthTag\<close> and gives ciphertext and tag, \<^verbatim>\<open>gcmDecrypt key
  iv tag ciphertext\<close> stands for \<^verbatim>\<open>createDecipheriv\<close>, \<^verbatim>\<open>setAuthTag\<close>, \<^verbatim>\<open>update\<close>
  and \<^verbatim>\<open>final\<close> and is \<^term>\<open>None\<close> where \<^verbatim>\<open>final\<close> throws.
\<close>

datatype json =
    JNull | JBool bool | JNumber int | JString string
  | JArray "json list" | JObject "(string \<times> json) list"

record runtime =
  scryptSync :: "string \<Rightarrow> string \<Rightarrow> nat \<Rightarrow> string"
  randomBytes :: "nat \<Rightarrow> string"
  gcmEncrypt :: "string \<Rightarrow> string \<Rightarrow> string \<Rightarrow> string \<times> string"
  gcmDecrypt :: "string \<Rightarrow> string \<Rightarrow> string \<Rightarrow> string \<Rightarrow> string option"
  JSON_stringify :: "json \<Rightarrow> string"
  JSON_parse :: "string \<Rightarrow> json option"
  utf8_bytes :: "string \<Rightarrow> string"
  utf8_string :: "string \<Rightarrow> string"
  now :: int

text \<open>The object \<^verbatim>\<open>{ v: 1, creds: base64Creds, ts: now() }\<close>.\<close>

definition envelope :: "string \<Rightarrow> int \<Rightarrow> json" where
  "envelope base64Creds ts =
     JObject [(''v'', JNumber 1), (''creds'', JString base64Creds), (''ts'', JNumber ts)]"

text \<open>
  \<^verbatim>\<open>
  function exportTokensFromCreds(credsBytes) {
    const base64Creds = Buffer.from(credsBytes).toString('base64');
    if (!EXPORT_ENCRYPTED) return [`Mantra~${base64Creds}`];
    const key = crypto.scryptSync(SESSION_SECRET, 'mantra-pair', 32);
    const iv = crypto.randomBytes(12);
    const cipher = crypto.createCipheriv('aes-256-gcm', key, iv);
    const payload = Buffer.from(JSON.stringify({ v: 1, creds: base64Creds, ts: now() }), 'utf8');
    const ciphertext = Buffer.concat([cipher.update(payload), cipher.final()]);
    const tag = cipher.getAuthTag();
    return [`MantraEnc~${b64url(Buffer.concat([iv, tag, ciphertext]))}`];
  }
  \<close>
\<close>

definition exportTokensFromCreds :: "config \<Rightarrow> runtime \<Rightarrow> string \<Rightarrow> string list" where
  "exportTokensFromCreds cfg rt credsBytes =
     (let base64Creds = base64_encode credsBytes in
      if \<not> EXPORT_ENCRYPTED cfg then [''Mantra~'' @ base64Creds]
      else
        let key = scryptSync rt (SESSION_SECRET cfg) ''mantra-pair'' 32;
            iv = randomBytes rt 12;
            payload = utf8_bytes rt (JSON_stringify rt (envelope base64Creds (now rt)));
            (ciphertext, tag) = gcmEncrypt rt key iv payload
        in [''MantraEnc~'' @ b64url (iv @ tag @ ciphertext)])"

subsection \<open>The decrypt script\<close>

text \<open>
  \<^verbatim>\<open>
  function b64urlDecodeToBuf(s) {
    const b64 = String(s).replace(/-/g, '+').replace(/_/g, '/');
    const pad = b64.length % 4 ? '='.repeat(4 - (b64.length % 4)) : '';
    return Buffer.from(b64 + pad, 'base64');
  }
  \<close>
\<close>

definition b64urlDecodeToBuf :: "string \<Rightarrow> string" where
  "b64urlDecodeToBuf s =
     (let b64 = replaceAll (CHR ''_'') (CHR ''/'') (replaceAll (CHR ''-'') (CHR ''+'') s);
          pad = (if length b64 mod 4 \<noteq> 0 then replicate (4 - length b64 mod 4) (CHR ''='') else [])
      in base64_decode (b64 @ pad))"

text \<open>\<^verbatim>\<open>String.prototype.trim\<close> on 8-bit code units: tab to carriage return, space, no-break space.\<close>

definition isSpace :: "char \<Rightarrow> bool" where
  "isSpace c = (of_char c \<in> {9, 10, 11, 12, 13, 32, 160 :: nat})"

definition trim :: "string \<Rightarrow> string" where
  "trim str = rev (dropWhile isSpace (rev (dropWhile isSpace str)))"

text \<open>
  The body of the script. It ends the process with an exit code and a message on
  standard error (\<^term>\<open>Inl\<close>), or writes the credential bytes to standard output
  (\<^term>\<open>Inr\<close>). Arguments: the runtime, \<^verbatim>\<open>process.env.SESSION_SECRET\<close>,
  \<^verbatim>\<open>process.argv[2]\<close>. The messages are given without the text of the error caught.
\<close>

definition envelope_ok :: "json \<Rightarrow> bool" where
  "envelope_ok parsed =
     (case parsed of
        JObject kvs \<Rightarrow>
          map_of kvs ''v'' = Some (JNumber 1)
          \<and> (case map_of kvs ''creds'' of Some (JString c) \<Rightarrow> True | _ \<Rightarrow> False)
      | _ \<Rightarrow> False)"

definition envelope_creds :: "json \<Rightarrow> string" where
  "envelope_creds parsed =
     (case parsed of
        JObject kvs \<Rightarrow> (case map_of kvs ''creds'' of Some (JString c) \<Rightarrow> c | _ \<Rightarrow> [])
      | _ \<Rightarrow> [])"

definition decrypt_session :: "runtime \<Rightarrow> string option \<Rightarrow> string option \<Rightarrow> (nat \<times> string) + string" where
  "decrypt_session rt env_secret argv2 =
     (case argv2 of
        None \<Rightarrow> Inl (2, ''Usage: SESSION_SECRET=... node scripts/decrypt-session.js MantraEnc~<token>'')
      | Some token \<Rightarrow>
        if token = [] \<or> take 10 token \<noteq> ''MantraEnc~''
        then Inl (2, ''Usage: SESSION_SECRET=... node scripts/decrypt-session.js MantraEnc~<token>'')
        else
          let secret = trim (case env_secret of None \<Rightarrow> [] | Some v \<Rightarrow> v) in
          if secret = [] then Inl (2, ''SESSION_SECRET is required'')
          else
            let packed = b64urlDecodeToBuf (drop 10 token) in
            if length packed < 12 + 16 + 1 then Inl (2, ''Token too short'')
            else
              let iv = take 12 packed;
                  tag = take 16 (drop 12 packed);
                  ciphertext = drop 28 packed;
                  key = scryptSync rt secret ''mantra-pair'' 32
              in case gcmDecrypt rt key iv tag ciphertext of
                   None \<Rightarrow> Inl (1, ''Decrypt failed'')
                 | Some plaintext \<Rightarrow>
                     (case JSON_parse rt (utf8_string rt plaintext) of
                        None \<Rightarrow> Inl (1, ''Invalid payload JSON'')
                      | Some parsed \<Rightarrow>
                          if \<not> envelope_ok parsed then Inl (1, ''Unexpected payload format'')
                          else Inr (base64_decode (envelope_creds parsed))))"

subsection \<open>Boot check of the export mode\<close>

text \<open>
  \<^verbatim>\<open>
  const EXPORT_ENCRYPTED = String(process.env.EXPORT_ENCRYPTED || 'false').toLowerCase() === 'true';
  const SESSION_SECRET = String(process.env.SESSION_SECRET || '').trim();
  if (EXPORT_ENCRYPTED && !SESSION_SECRET) {
    throw new Error('SESSION_SECRET is required when EXPORT_ENCRYPTED=true');
  }
  \<close>
  \<^verbatim>\<open>process.env\<close> is a map from names to strings. \<^verbatim>\<open>toLowerCase\<close> is given on the
  letters \<^verbatim>\<open>A\<close> to \<^verbatim>\<open>Z\<close>; no other code unit becomes one of \<^verbatim>\<open>t\<close>, \<^verbatim>\<open>r\<close>,
  \<^verbatim>\<open>u\<close>, \<^verbatim>\<open>e\<close>.
\<close>

definition toLowerCase :: "string \<Rightarrow> string" where
  "toLowerCase str =
     map (\<lambda>c. if 65 \<le> (of_char c :: nat) \<and> (of_char c :: nat) \<le> 90
               then char_of (of_char c + 32 :: nat) else c) str"

definition orElse :: "string option \<Rightarrow> string \<Rightarrow> string" where
  "orElse v d = (case v of None \<Rightarrow> d | Some x \<Rightarrow> if x = [] then d else x)"

definition env_EXPORT_ENCRYPTED :: "(string \<Rightarrow> string option) \<Rightarrow> bool" where
  "env_EXPORT_ENCRYPTED env = (toLowerCase (orElse (env ''EXPORT_ENCRYPTED'') ''false'') = ''true'')"

definition env_SESSION_SECRET :: "(string \<Rightarrow> string option) \<Rightarrow> string" where
  "env_SESSION_SECRET env = trim (orElse (env ''SESSION_SECRET'') [])"

text \<open>
  The top level of the module up to the check: \<^term>\<open>Inl\<close> is the thrown error, which
  ends the process before any route exists; \<^term>\<open>Inr\<close> is the export mode and the
  secret the rest of the module runs with.
\<close>

definition boot :: "(string \<Rightarrow> string option) \<Rightarrow> string + (bool \<times> string)" where
  "boot env =
     (if env_EXPORT_ENCRYPTED env \<and> env_SESSION_SECRET env = []
      then Inl ''SESSION_SECRET is required when EXPORT_ENCRYPTED=true''
      else Inr (env_EXPORT_ENCRYPTED env, env_SESSION_SECRET env))"

subsection \<open>Sessions, the registry and the world around them\<close>

text \<open>
  The server is single-threaded: the code runs in segments, each from one
  \<^verbatim>\<open>await\<close> (or the start of a callback) to the next, and nothing interleaves
  inside a segment. The model is a state, the \<open>world\<close>, and one function per
  segment. A suspended \<^verbatim>\<open>await\<close> is a continuation in the list \<open>pending\<close>; the
  environment chooses which one resumes next and with what result.

  Session objects live in a store indexed by references, since closures and timers
  keep a session object after \<^verbatim>\<open>sessions.delete\<close> has removed it from the registry.
  The fields of a session are those of the object literal in the handler of
  \<^verbatim>\<open>POST /api/pair\<close>; \<open>sid\<close> is \<^verbatim>\<open>id\<close>, \<open>pair_method\<close> is \<^verbatim>\<open>method\<close>, and
  \<open>timers_ttl\<close> and \<open>timers_idle\<close> are \<^verbatim>\<open>timers.ttl\<close> and \<^verbatim>\<open>timers.idle\<close>. The
  emitter of a session is represented by the list of what it has emitted.

  What the model leaves to the environment: when a timer fires and when a delay
  elapses (any armed timer may fire, any pending continuation may resume), and the
  result of every call into the library, the file system and the runtime. What it
  takes for granted: \<^verbatim>\<open>makeWASocket\<close> returns, and \<^verbatim>\<open>fetchLatestBaileysVersion\<close> is a
  function (its failure is caught by the code). An \<^verbatim>\<open>await\<close> of a call that has not
  itself suspended, as \<^verbatim>\<open>await endSocketOnly(s)\<close> when the session has no handle, is
  not a suspension point of the model.
\<close>

type_synonym ref = nat
type_synonym handle = nat
type_synonym timer = nat

record session =
  sid :: string
  streamKey :: string
  pair_method :: string
  phone :: "string option"
  createdAt :: int
  lastEventAt :: int
  dir :: string
  sock :: "handle option"
  lastQr :: "string option"
  lastCode :: "string option"
  retries :: int
  timers_ttl :: "timer option"
  timers_idle :: "timer option"

text \<open>What \<^verbatim>\<open>s.emitter\<close> emits: the event name with the payload the code gives it.\<close>

datatype event =
    Status string
  | Retrying int int
  | CodeEvent string
  | QrEvent string
  | Exported string
  | SessionError string

text \<open>
  An error thrown by the library, with the four places \<^verbatim>\<open>statusCodeFromError\<close>
  looks at, and the \<^verbatim>\<open>connection.update\<close> payload with the three fields the handler
  reads (\<^verbatim>\<open>lastDisconnect\<close> stands for \<^verbatim>\<open>lastDisconnect?.error\<close>).
\<close>

record error_obj =
  output_statusCode :: "int option"
  data_statusCode :: "int option"
  own_statusCode :: "int option"
  response_status :: "int option"
  message :: "string option"

record update =
  connection :: "string option"
  qr :: "string option"
  lastDisconnect :: "error_obj option"

datatype outcome = Resolved string | Rejected error_obj

text \<open>Who called \<^verbatim>\<open>startPairing\<close>: each call site attaches its own \<^verbatim>\<open>.catch\<close>.\<close>

datatype caller = Create | CloseRetry | CodeRetry

text \<open>
  The suspension points. \<open>SP\<close>: in the body of \<^verbatim>\<open>startPairing\<close>; \<open>CU\<close>: in its
  \<^verbatim>\<open>connection.update\<close> handler; \<open>CL\<close>: in \<^verbatim>\<open>cleanupSession\<close>. Each carries the
  variables its closure has captured.
\<close>

datatype cont =
    SP_ensureDir ref caller
  | SP_authState ref caller
  | SP_version ref caller
  | SP_settle ref handle
  | SP_request ref handle
  | SP_endSocket ref
  | SP_backoff ref int
  | CU_qr ref handle update
  | CU_settle ref handle
  | CU_readFile ref handle
  | CU_sendToken ref handle string "string list"
  | CU_tokenDelay ref handle string "string list"
  | CU_sendNote ref handle
  | CU_grace ref
  | CU_endSocket ref
  | CU_backoff ref int
  | CL_end ref
  | CL_remove ref

datatype timer_cb = TtlCb ref | IdleCb ref

text \<open>
  A message given to \<^verbatim>\<open>sock.sendMessage\<close>: a token in its code block, or the closing
  note with the token hint and the time it was written.
\<close>

datatype chat_message = TokenBlock string | PairComplete string int

datatype response = Accepted string string "string option" | Refused nat string

record world =
  clock :: int
  heap :: "ref \<Rightarrow> session"
  next_ref :: nat
  sessions :: "(string \<times> ref) list"
  armed :: "timer set"
  callbacks :: "timer \<Rightarrow> timer_cb option"
  next_timer :: nat
  owner :: "handle \<Rightarrow> ref option"
  live :: "handle set"
  next_handle :: nat
  user :: "handle \<Rightarrow> string option"
  end_calls :: "handle list"
  dirs :: "string set"
  creds :: "string \<Rightarrow> string option"
  remove_calls :: "string list"
  sent :: "(handle \<times> string \<times> chat_message) list"
  emitted :: "(ref \<times> event) list"
  responses :: "response list"
  pending :: "cont list"

text \<open>
  \<open>sessions\<close> is the \<^verbatim>\<open>Map\<close> of the module, in insertion order. \<open>live\<close> is the set
  of connection handles that \<^verbatim>\<open>makeWASocket\<close> has opened and that neither the code
  has ended nor the remote side has closed; \<open>owner\<close> gives the session object whose
  handlers a handle carries. \<open>end_calls\<close> and \<open>remove_calls\<close> record every call of
  \<^verbatim>\<open>sock.end()\<close> and \<^verbatim>\<open>fs.remove\<close>.
\<close>

definition obj :: "ref \<Rightarrow> (session \<Rightarrow> session) \<Rightarrow> world \<Rightarrow> world" where
  "obj r f w = w\<lparr> heap := (heap w)(r := f (heap w r)) \<rparr>"

definition suspend :: "cont \<Rightarrow> world \<Rightarrow> world" where
  "suspend k w = w\<lparr> pending := pending w @ [k] \<rparr>"

definition sessions_has :: "string \<Rightarrow> world \<Rightarrow> bool" where
  "sessions_has k w = (map_of (sessions w) k \<noteq> None)"

definition sessions_delete :: "string \<Rightarrow> world \<Rightarrow> world" where
  "sessions_delete k w = w\<lparr> sessions := AList.delete k (sessions w) \<rparr>"

definition clearTimeout :: "timer \<Rightarrow> world \<Rightarrow> world" where
  "clearTimeout t w = w\<lparr> armed := armed w - {t} \<rparr>"

definition setTimeout :: "timer_cb \<Rightarrow> world \<Rightarrow> world" where
  "setTimeout cb w =
     w\<lparr> armed := insert (next_timer w) (armed w),
        callbacks := (callbacks w)(next_timer w := Some cb),
        next_timer := Suc (next_timer w) \<rparr>"

definition sock_end :: "handle \<Rightarrow> world \<Rightarrow> world" where
  "sock_end h w = w\<lparr> end_calls := end_calls w @ [h], live := live w - {h} \<rparr>"

definition fs_remove :: "string \<Rightarrow> world \<Rightarrow> world" where
  "fs_remove d w = w\<lparr> remove_calls := remove_calls w @ [d] \<rparr>"

definition sendMessage :: "handle \<Rightarrow> string \<Rightarrow> chat_message \<Rightarrow> world \<Rightarrow> world" where
  "sendMessage h jid n w = w\<lparr> sent := sent w @ [(h, jid, n)] \<rparr>"

text \<open>\<^verbatim>\<open>s.emitter.emit(event, data)\<close>, and \<^verbatim>\<open>emit(s, event, data)\<close>, which first sets
  \<^verbatim>\<open>s.lastEventAt = now()\<close>.\<close>

definition emitter_emit :: "ref \<Rightarrow> event \<Rightarrow> world \<Rightarrow> world" where
  "emitter_emit r e w = w\<lparr> emitted := emitted w @ [(r, e)] \<rparr>"

definition emit :: "ref \<Rightarrow> event \<Rightarrow> world \<Rightarrow> world" where
  "emit r e w = emitter_emit r e (obj r (\<lambda>s. s\<lparr> lastEventAt := clock w \<rparr>) w)"

text \<open>
  \<^verbatim>\<open>
  function touchIdle(s) {
    if (s.timers.idle) clearTimeout(s.timers.idle);
    s.timers.idle = setTimeout(() => { ... cleanupSession(s) ... }, SESSION_IDLE_TTL_MS);
  }
  \<close>
\<close>

definition touchIdle :: "ref \<Rightarrow> world \<Rightarrow> world" where
  "touchIdle r w =
     (let w1 = (case timers_idle (heap w r) of Some t \<Rightarrow> clearTimeout t w | None \<Rightarrow> w);
          t = next_timer w1
      in obj r (\<lambda>s. s\<lparr> timers_idle := Some t \<rparr>) (setTimeout (IdleCb r) w1))"

text \<open>
  \<^verbatim>\<open>
  async function cleanupSession(s) {
    if (!s) return;
    if (s.timers.ttl) clearTimeout(s.timers.ttl);
    if (s.timers.idle) clearTimeout(s.timers.idle);
    try { if (s.sock) await s.sock.end(); } catch (_) {}
    try { await fs.remove(s.dir); } catch (_) {}
    sessions.delete(s.id);
  }
  \<close>
  Three segments: up to the first \<^verbatim>\<open>await\<close> (that of \<^verbatim>\<open>end()\<close> when there is a
  handle, that of \<^verbatim>\<open>fs.remove\<close> otherwise), from \<^verbatim>\<open>end()\<close> to \<^verbatim>\<open>fs.remove\<close>,
  and the rest. The directory is gone when \<^verbatim>\<open>fs.remove\<close> resolves.
\<close>

definition cleanupSession :: "ref \<Rightarrow> world \<Rightarrow> world" where
  "cleanupSession r w =
     (let s = heap w r;
          w1 = (case timers_ttl s of Some t \<Rightarrow> clearTimeout t w | None \<Rightarrow> w);
          w2 = (case timers_idle s of Some t \<Rightarrow> clearTimeout t w1 | None \<Rightarrow> w1)
      in case sock s of
           Some h \<Rightarrow> suspend (CL_end r) (sock_end h w2)
         | None \<Rightarrow> suspend (CL_remove r) (fs_remove (dir s) w2))"

definition cleanup_after_end :: "ref \<Rightarrow> world \<Rightarrow> world" where
  "cleanup_after_end r w = suspend (CL_remove r) (fs_remove (dir (heap w r)) w)"

definition cleanup_after_remove :: "ref \<Rightarrow> outcome \<Rightarrow> world \<Rightarrow> world" where
  "cleanup_after_remove r out w =
     (let d = dir (heap w r);
          w1 = (case out of
                  Resolved _ \<Rightarrow> w\<lparr> dirs := dirs w - {d}, creds := (creds w)(d := None) \<rparr>
                | Rejected _ \<Rightarrow> w)
      in sessions_delete (sid (heap w1 r)) w1)"

subsection \<open>Small helpers of the module\<close>

text \<open>JavaScript truthiness of an optional string: present and not empty.\<close>

definition truthy :: "string option \<Rightarrow> bool" where
  "truthy v = (case v of None \<Rightarrow> False | Some x \<Rightarrow> x \<noteq> [])"

text \<open>Decimal and hexadecimal text of numbers and bytes, as template strings and
  \<^verbatim>\<open>toString('hex')\<close> give them.\<close>

function decimal_digits :: "int \<Rightarrow> string" where
  "decimal_digits n =
     (if n < 10 then [''0123456789'' ! nat n]
      else decimal_digits (n div 10) @ [''0123456789'' ! nat (n mod 10)])"
  by pat_completeness auto
termination
  by (relation "measure nat") auto

declare decimal_digits.simps [simp del]

definition decimal :: "int \<Rightarrow> string" where
  "decimal i = (if i < 0 then CHR ''-'' # decimal_digits (- i) else decimal_digits i)"

definition hex :: "string \<Rightarrow> string" where
  "hex buf =
     concat (map (\<lambda>c. [''0123456789abcdef'' ! (of_char c div 16),
                        ''0123456789abcdef'' ! (of_char c mod 16)]) buf)"

text \<open>\<^verbatim>\<open>randomId(prefix)\<close>: \<^verbatim>\<open>`${prefix}_${now()}_${crypto.randomBytes(8).toString('hex')}`\<close>,
  with the random bytes as an argument.\<close>

definition randomId :: "string \<Rightarrow> int \<Rightarrow> string \<Rightarrow> string" where
  "randomId prefix t bytes = prefix @ ''_'' @ decimal t @ ''_'' @ hex bytes"

text \<open>\<^verbatim>\<open>sessionDir(id)\<close>: \<^verbatim>\<open>path.join(__dirname, 'temp', id)\<close>, relative to the module.\<close>

definition sessionDir :: "string \<Rightarrow> string" where
  "sessionDir i = ''temp/'' @ i"

text \<open>
  \<^verbatim>\<open>statusCodeFromError(err)\<close>:
  \<^verbatim>\<open>err?.output?.statusCode ?? err?.data?.statusCode ?? err?.statusCode ?? err?.response?.status ?? undefined\<close>.
\<close>

definition nullish :: "'a option \<Rightarrow> 'a option \<Rightarrow> 'a option" where
  "nullish a b = (case a of Some x \<Rightarrow> Some x | None \<Rightarrow> b)"

definition statusCodeFromError :: "error_obj \<Rightarrow> int option" where
  "statusCodeFromError err =
     nullish (output_statusCode err)
       (nullish (data_statusCode err) (nullish (own_statusCode err) (response_status err)))"

text \<open>\<^verbatim>\<open>e?.message || 'Unknown error'\<close>.\<close>

definition message_or :: "error_obj \<Rightarrow> string \<Rightarrow> string" where
  "message_or e d = (case message e of None \<Rightarrow> d | Some m \<Rightarrow> if m = [] then d else m)"

text \<open>
  \<^verbatim>\<open>raw?.match(/.{1,4}/g)?.join('-') || raw\<close>: the groups of up to four characters of
  every line of the code, joined by hyphens; the code itself when there is no group.
\<close>

fun chunk4 :: "string \<Rightarrow> string list" where
  "chunk4 (a # b # c # d # r) = [a, b, c, d] # chunk4 r"
| "chunk4 [] = []"
| "chunk4 xs = [xs]"

fun splitLines :: "string \<Rightarrow> string list" where
  "splitLines [] = [[]]"
| "splitLines (c # cs) =
     (if c = CHR 0x0A \<or> c = CHR 0x0D then [] # splitLines cs
      else case splitLines cs of l # ls \<Rightarrow> (c # l) # ls | [] \<Rightarrow> [[c]])"

fun joinWith :: "string \<Rightarrow> string list \<Rightarrow> string" where
  "joinWith sep [] = []"
| "joinWith sep [x] = x"
| "joinWith sep (x # y # r) = x @ sep @ joinWith sep (y # r)"

definition formatCode :: "string \<Rightarrow> string" where
  "formatCode raw =
     (let groups = concat (map chunk4 (splitLines raw)) in
      if groups = [] then raw else joinWith ''-'' groups)"

text \<open>
  \<^verbatim>\<open>
  function safeSelfJid(sock) {
    const id = String(sock?.user?.id || '');
    const left = id.split('@')[0] || '';
    const number = (left.split(':')[0] || '').trim();
    return number ? `${number}@s.whatsapp.net` : null;
  }
  \<close>
\<close>

definition safeSelfJid :: "string option \<Rightarrow> string option" where
  "safeSelfJid user_id =
     (let i = (case user_id of None \<Rightarrow> [] | Some x \<Rightarrow> x);
          left = takeWhile (\<lambda>c. c \<noteq> CHR ''@'') i;
          number = trim (takeWhile (\<lambda>c. c \<noteq> CHR '':'') left)
      in if number = [] then None else Some (number @ ''@s.whatsapp.net''))"

subsection \<open>\<^verbatim>\<open>startPairing\<close> and its handlers, segment by segment\<close>

text \<open>
  \<^verbatim>\<open>startPairing(s)\<close> runs up to \<^verbatim>\<open>await fs.ensureDir(s.dir)\<close>. When the promise
  it returns rejects, the \<^verbatim>\<open>.catch\<close> of the call site reports and cleans up.
\<close>

definition startPairing :: "ref \<Rightarrow> caller \<Rightarrow> world \<Rightarrow> world" where
  "startPairing r c w = suspend (SP_ensureDir r c) w"

definition startPairing_rejected :: "ref \<Rightarrow> caller \<Rightarrow> world \<Rightarrow> world" where
  "startPairing_rejected r c w =
     cleanupSession r
       (case c of
          Create \<Rightarrow> emitter_emit r (SessionError ''Failed to start pairing session.'') w
        | CloseRetry \<Rightarrow> emit r (SessionError ''Retry failed. Try again.'') w
        | CodeRetry \<Rightarrow> emit r (SessionError ''Retry failed. Try QR instead.'') w)"

text \<open>
  \<^verbatim>\<open>const sock = makeWASocket({...}); s.sock = sock; const thisSock = sock;\<close> and the two
  \<^verbatim>\<open>sock.ev.on\<close>, then the start of the branch on \<^verbatim>\<open>s.method\<close>. The handle field is
  overwritten; nothing is ended here.
\<close>

definition openSocket :: "ref \<Rightarrow> world \<Rightarrow> world" where
  "openSocket r w =
     (let h = next_handle w;
          w1 = obj r (\<lambda>s. s\<lparr> sock := Some h \<rparr>)
                 (w\<lparr> owner := (owner w)(h := Some r), live := insert h (live w),
                     next_handle := Suc h \<rparr>)
      in if pair_method (heap w1 r) = ''code''
         then suspend (SP_settle r h) (emit r (Status ''requesting_code'') w1)
         else emit r (Status ''waiting_qr'') w1)"

text \<open>
  The retry branch, the same text at both places:
  \<^verbatim>\<open>
  s.retries = (s.retries || 0) + 1;
  emit(s, 'status', { status: 'retrying', retry: s.retries, maxRetries: MAX_RETRIES });
  await endSocketOnly(s);
  const backoff = Math.min(RETRY_DELAY_MAX_MS, RETRY_DELAY_MS * s.retries);
  await delay(backoff);
  if (!sessions.has(s.id)) return;
  startPairing(s).catch(...);
  \<close>
  with
  \<^verbatim>\<open>
  async function endSocketOnly(s) {
    try { if (s.sock) await s.sock.end(); } catch (_) {}
    s.sock = null;
  }
  \<close>
  \<open>retry_begin\<close> runs to the \<^verbatim>\<open>await\<close> of \<^verbatim>\<open>end()\<close>, or, without a handle, to that
  of \<^verbatim>\<open>delay\<close>; \<open>retry_wait\<close> runs from the return of \<^verbatim>\<open>end()\<close> to \<^verbatim>\<open>delay\<close>;
  \<open>retry_resume\<close> is the rest. The continuation of the delay carries the delay.
\<close>

definition retry_wait :: "config \<Rightarrow> (int \<Rightarrow> cont) \<Rightarrow> ref \<Rightarrow> world \<Rightarrow> world" where
  "retry_wait cfg kDelay r w =
     (let w1 = obj r (\<lambda>s. s\<lparr> sock := None \<rparr>) w
      in suspend (kDelay (backoff cfg (retries (heap w1 r)))) w1)"

definition retry_begin :: "config \<Rightarrow> cont \<Rightarrow> (int \<Rightarrow> cont) \<Rightarrow> ref \<Rightarrow> world \<Rightarrow> world" where
  "retry_begin cfg kEnd kDelay r w =
     (let n = retries (heap w r) + 1;
          w1 = emit r (Retrying n (MAX_RETRIES cfg)) (obj r (\<lambda>s. s\<lparr> retries := n \<rparr>) w)
      in case sock (heap w1 r) of
           Some h \<Rightarrow> suspend kEnd (sock_end h w1)
         | None \<Rightarrow> retry_wait cfg kDelay r w1)"

definition retry_resume :: "caller \<Rightarrow> ref \<Rightarrow> world \<Rightarrow> world" where
  "retry_resume c r w =
     (if \<not> sessions_has (sid (heap w r)) w then w else startPairing r c w)"

text \<open>The \<^verbatim>\<open>connection === 'close'\<close> branch of the handler.\<close>

definition closeMessage :: "DisconnectReason \<Rightarrow> string \<Rightarrow> int option \<Rightarrow> string" where
  "closeMessage dr m reason =
     (if reason = Some (unavailableService dr) then
        (if m = ''code''
         then ''WhatsApp service is temporarily unavailable for phone-number pairing (503). Try QR, or wait 5-10 minutes and retry.''
         else ''WhatsApp service is temporarily unavailable (503). Wait a bit and try again.'')
      else ''Couldn't login. Connection closed''
           @ (case reason of None \<Rightarrow> [] | Some c \<Rightarrow> if c = 0 then [] else '' (code '' @ decimal c @ '')'')
           @ ''.'')"

definition onClose :: "config \<Rightarrow> DisconnectReason \<Rightarrow> ref \<Rightarrow> update \<Rightarrow> world \<Rightarrow> world" where
  "onClose cfg dr r u w =
     (let reason = (case lastDisconnect u of None \<Rightarrow> None | Some e \<Rightarrow> output_statusCode e) in
      if reason = Some (loggedOut dr)
      then cleanupSession r (emit r (SessionError ''Logged out by WhatsApp. Start pairing again.'') w)
      else if retryGate cfg dr (retries (heap w r)) reason
      then retry_begin cfg (CU_endSocket r) (CU_backoff r) r w
      else cleanupSession r
             (emit r (SessionError (closeMessage dr (pair_method (heap w r)) reason)) w))"

text \<open>The handler from \<^verbatim>\<open>if (connection === 'open')\<close> on, and from its start.\<close>

definition afterQr :: "config \<Rightarrow> DisconnectReason \<Rightarrow> ref \<Rightarrow> handle \<Rightarrow> update \<Rightarrow> world \<Rightarrow> world" where
  "afterQr cfg dr r h u w =
     (if connection u = Some ''open''
      then suspend (CU_settle r h)
             (emit r (Status ''connected'') (obj r (\<lambda>s. s\<lparr> retries := 0 \<rparr>) w))
      else if connection u = Some ''close'' then onClose cfg dr r u w
      else w)"

definition onConnectionUpdate ::
  "config \<Rightarrow> DisconnectReason \<Rightarrow> ref \<Rightarrow> handle \<Rightarrow> update \<Rightarrow> world \<Rightarrow> world" where
  "onConnectionUpdate cfg dr r h u w =
     (if sock (heap w r) \<noteq> Some h then w
      else
        let w1 = (case connection u of
                    None \<Rightarrow> w
                  | Some c \<Rightarrow> if c = [] then w else touchIdle r (emit r (Status c) w))
        in if truthy (qr u) \<and> pair_method (heap w1 r) = ''qr''
           then suspend (CU_qr r h u) w1
           else afterQr cfg dr r h u w1)"

text \<open>The export: \<^verbatim>\<open>catch\<close> and \<^verbatim>\<open>finally\<close> of the \<^verbatim>\<open>try\<close>, and the loop over the tokens.\<close>

definition exportFailed :: "ref \<Rightarrow> string \<Rightarrow> world \<Rightarrow> world" where
  "exportFailed r msg w =
     suspend (CU_grace r) (emit r (SessionError (''Failed to export session: '' @ msg)) w)"

definition sendNote :: "config \<Rightarrow> ref \<Rightarrow> handle \<Rightarrow> string \<Rightarrow> world \<Rightarrow> world" where
  "sendNote cfg r h jid w =
     suspend (CU_sendNote r h)
       (sendMessage h jid
          (PairComplete (if EXPORT_ENCRYPTED cfg then ''MantraEnc~...'' else ''Mantra~...'') (clock w)) w)"

definition sendTokens :: "config \<Rightarrow> ref \<Rightarrow> handle \<Rightarrow> string \<Rightarrow> string list \<Rightarrow> world \<Rightarrow> world" where
  "sendTokens cfg r h jid tokens w =
     (case tokens of
        [] \<Rightarrow> sendNote cfg r h jid w
      | t # ts \<Rightarrow> suspend (CU_sendToken r h jid ts) (sendMessage h jid (TokenBlock t) w))"

text \<open>What each continuation does when it resumes, up to the next \<^verbatim>\<open>await\<close>. The
  \<^verbatim>\<open>now()\<close> of the exporter is the clock of the world.\<close>

fun resume :: "config \<Rightarrow> DisconnectReason \<Rightarrow> runtime \<Rightarrow> cont \<Rightarrow> outcome \<Rightarrow> world \<Rightarrow> world" where
  "resume cfg dr rt (SP_ensureDir r c) out w =
     (case out of
        Rejected e \<Rightarrow> startPairing_rejected r c w
      | Resolved x \<Rightarrow>
          suspend (SP_authState r c)
            (touchIdle r (w\<lparr> dirs := insert (dir (heap w r)) (dirs w) \<rparr>)))"
| "resume cfg dr rt (SP_authState r c) out w =
     (case out of
        Rejected e \<Rightarrow> startPairing_rejected r c w
      | Resolved x \<Rightarrow> suspend (SP_version r c) w)"
| "resume cfg dr rt (SP_version r c) out w = openSocket r w"
| "resume cfg dr rt (SP_settle r h) out w =
     (if sock (heap w r) \<noteq> Some h then w else suspend (SP_request r h) w)"
| "resume cfg dr rt (SP_request r h) out w =
     (case out of
        Resolved raw \<Rightarrow>
          touchIdle r
            (emit r (CodeEvent (formatCode raw))
               (obj r (\<lambda>s. s\<lparr> lastCode := Some (formatCode raw) \<rparr>) w))
      | Rejected e \<Rightarrow>
          if retryGate cfg dr (retries (heap w r)) (statusCodeFromError e)
          then retry_begin cfg (SP_endSocket r) (SP_backoff r) r w
          else if statusCodeFromError e = Some (forbidden dr)
          then emit r (SessionError ''Pairing code isn't available right now. Use QR Scan.'') w
          else emit r (SessionError (''Failed to generate pairing code: ''
                                     @ message_or e ''Unknown error'')) w)"
| "resume cfg dr rt (SP_endSocket r) out w = retry_wait cfg (SP_backoff r) r w"
| "resume cfg dr rt (SP_backoff r ms) out w = retry_resume CodeRetry r w"
| "resume cfg dr rt (CU_qr r h u) out w =
     afterQr cfg dr r h u
       (case out of
          Resolved url \<Rightarrow>
            touchIdle r (emit r (QrEvent url) (obj r (\<lambda>s. s\<lparr> lastQr := Some url \<rparr>) w))
        | Rejected e \<Rightarrow>
            emit r (SessionError (''Failed to render QR: '' @ message_or e [])) w)"
| "resume cfg dr rt (CU_settle r h) out w =
     (case creds w (dir (heap w r)) of
        None \<Rightarrow> cleanupSession r (emit r (SessionError ''creds.json not found after connect'') w)
      | Some content \<Rightarrow> suspend (CU_readFile r h) w)"
| "resume cfg dr rt (CU_readFile r h) out w =
     (case out of
        Rejected e \<Rightarrow> exportFailed r (message_or e []) w
      | Resolved credsBytes \<Rightarrow>
          (case safeSelfJid (user w h) of
             None \<Rightarrow> exportFailed r ''Could not resolve self JID'' w
           | Some jid \<Rightarrow>
               sendTokens cfg r h jid
                 (exportTokensFromCreds cfg (rt\<lparr> now := clock w \<rparr>) credsBytes) w))"
| "resume cfg dr rt (CU_sendToken r h jid ts) out w =
     (case out of
        Rejected e \<Rightarrow> exportFailed r (message_or e []) w
      | Resolved x \<Rightarrow> suspend (CU_tokenDelay r h jid ts) w)"
| "resume cfg dr rt (CU_tokenDelay r h jid ts) out w = sendTokens cfg r h jid ts w"
| "resume cfg dr rt (CU_sendNote r h) out w =
     (case out of
        Rejected e \<Rightarrow> exportFailed r (message_or e []) w
      | Resolved x \<Rightarrow>
          suspend (CU_grace r)
            (emit r (Exported (if EXPORT_ENCRYPTED cfg then ''encrypted'' else ''legacy'')) w))"
| "resume cfg dr rt (CU_grace r) out w = cleanupSession r w"
| "resume cfg dr rt (CU_endSocket r) out w = retry_wait cfg (CU_backoff r) r w"
| "resume cfg dr rt (CU_backoff r ms) out w = retry_resume CloseRetry r w"
| "resume cfg dr rt (CL_end r) out w = cleanup_after_end r w"
| "resume cfg dr rt (CL_remove r) out w = cleanup_after_remove r out w"

subsection \<open>Timers, the sweep and the routes\<close>

text \<open>The callbacks of the two timers: \<^verbatim>\<open>s.emitter.emit('session_error', ...)\<close>, then
  \<^verbatim>\<open>cleanupSession(s)\<close>.\<close>

definition fire :: "timer \<Rightarrow> world \<Rightarrow> world" where
  "fire t w =
     (if t \<notin> armed w then w
      else
        let w1 = w\<lparr> armed := armed w - {t} \<rparr> in
        case callbacks w t of
          None \<Rightarrow> w1
        | Some (TtlCb r) \<Rightarrow> cleanupSession r (emitter_emit r (SessionError ''Session expired.'') w1)
        | Some (IdleCb r) \<Rightarrow>
            cleanupSession r
              (emitter_emit r (SessionError ''Session expired due to inactivity.'') w1))"

text \<open>
  \<^verbatim>\<open>
  function sweepExpired() {
    const t = now();
    for (const s of sessions.values()) {
      if (t - s.createdAt > SESSION_TTL_MS) {
        s.emitter.emit('session_error', { message: 'Session expired.' });
        cleanupSession(s).catch(() => {});
      }
    }
  }
  \<close>
\<close>

definition sweepOne :: "config \<Rightarrow> int \<Rightarrow> ref \<Rightarrow> world \<Rightarrow> world" where
  "sweepOne cfg t r w =
     (if t - createdAt (heap w r) > SESSION_TTL_MS cfg
      then cleanupSession r (emitter_emit r (SessionError ''Session expired.'') w)
      else w)"

definition sweepExpired :: "config \<Rightarrow> world \<Rightarrow> world" where
  "sweepExpired cfg w = fold (sweepOne cfg (clock w)) (map snd (sessions w)) w"

text \<open>
  The request of \<^verbatim>\<open>POST /api/pair\<close>: the \<^verbatim>\<open>x-api-key\<close> header and the two fields of
  the JSON body the handler reads.
\<close>

record request =
  x_api_key :: "string option"
  body_method :: "string option"
  body_phone :: "string option"

text \<open>
  \<^verbatim>\<open>
  function requireApiKey(req, res, next) {
    if (!PAIR_API_KEY) return next();
    const key = String(req.get('x-api-key') || '').trim();
    if (key && key === PAIR_API_KEY) return next();
    return res.status(401).json({ ok: false, error: 'Unauthorized' });
  }
  \<close>
\<close>

definition requireApiKey :: "config \<Rightarrow> request \<Rightarrow> bool" where
  "requireApiKey cfg req =
     (if PAIR_API_KEY cfg = [] then True
      else let key = trim (orElse (x_api_key req) []) in key \<noteq> [] \<and> key = PAIR_API_KEY cfg)"

text \<open>
  The handler of \<^verbatim>\<open>POST /api/pair\<close>, with the random bytes of the id and of the
  stream key as arguments. It answers \<^verbatim>\<open>400\<close> before anything is created, or
  creates the session, arms the TTL timer, calls \<^verbatim>\<open>startPairing\<close> and answers.
\<close>

definition pairHandler :: "config \<Rightarrow> request \<Rightarrow> string \<Rightarrow> string \<Rightarrow> world \<Rightarrow> response \<times> world" where
  "pairHandler cfg req idBytes keyBytes w =
     (let m = orElse (body_method req) ''code'' in
      if m \<notin> set [''code'', ''qr''] then (Refused 400 ''Invalid method. Use \"code\" or \"qr\".'', w)
      else
        case (if m = ''code''
              then (case validatePhone (body_phone req) of
                      Inl err \<Rightarrow> Inl err | Inr cleaned \<Rightarrow> Inr (Some cleaned))
              else Inr None) of
          Inl err \<Rightarrow> (Refused 400 err, w)
        | Inr p \<Rightarrow>
            let i = randomId ''sess'' (clock w) idBytes;
                key = hex keyBytes;
                r = next_ref w;
                s = \<lparr> sid = i, streamKey = key, pair_method = m, phone = p, createdAt = clock w,
                      lastEventAt = clock w, dir = sessionDir i, sock = None, lastQr = None,
                      lastCode = None, retries = 0, timers_ttl = None, timers_idle = None \<rparr>;
                w1 = w\<lparr> heap := (heap w)(r := s), next_ref := Suc r,
                        sessions := AList.update i r (sessions w) \<rparr>;
                t = next_timer w1;
                w2 = obj r (\<lambda>s. s\<lparr> timers_ttl := Some t \<rparr>) (setTimeout (TtlCb r) w1)
            in (Accepted i m (if PAIR_API_KEY cfg \<noteq> [] then Some key else None),
                startPairing r Create w2))"

text \<open>
  The route: \<^verbatim>\<open>app.post('/api/pair', createLimiter, requireApiKey, handler)\<close>.
  Whether the rate limiter of \<^verbatim>\<open>express-rate-limit\<close> lets the request pass is an
  argument.
\<close>

definition post_api_pair ::
  "config \<Rightarrow> bool \<Rightarrow> request \<Rightarrow> string \<Rightarrow> string \<Rightarrow> world \<Rightarrow> response \<times> world" where
  "post_api_pair cfg limited req idBytes keyBytes w =
     (if limited then (Refused 429 ''Rate limit exceeded. Try again shortly.'', w)
      else if \<not> requireApiKey cfg req then (Refused 401 ''Unauthorized'', w)
      else pairHandler cfg req idBytes keyBytes w)"

definition status_code :: "response \<Rightarrow> nat" where
  "status_code resp = (case resp of Accepted i m k \<Rightarrow> 200 | Refused c e \<Rightarrow> c)"

text \<open>
  The status with which \<^verbatim>\<open>GET /api/sessions/:id/events\<close> answers: the lookup
  \<^verbatim>\<open>sessions.get(id)\<close>, then the stream key when an API key is configured.
\<close>

definition get_events_status :: "config \<Rightarrow> string \<Rightarrow> string option \<Rightarrow> world \<Rightarrow> nat" where
  "get_events_status cfg i query_key w =
     (case map_of (sessions w) i of
        None \<Rightarrow> 404
      | Some r \<Rightarrow>
          if PAIR_API_KEY cfg \<noteq> []
             \<and> (trim (orElse query_key []) = [] \<or> trim (orElse query_key []) \<noteq> streamKey (heap w r))
          then 401 else 200)"

subsection \<open>The environment\<close>

text \<open>
  What can happen next: a request, an event of the library on a handle (a
  \<^verbatim>\<open>connection.update\<close>, new credentials on disk, the account of the handle becoming
  known), a timer firing, the periodic sweep, a suspended \<^verbatim>\<open>await\<close> resuming with
  its result, or time passing. A \<^verbatim>\<open>connection.update\<close> with \<^verbatim>\<open>connection: 'close'\<close>
  says that the connection of the handle is gone.
\<close>

datatype action =
    PostPair bool request string string
  | ConnectionUpdate handle update
  | CredsUpdate handle string
  | UserKnown handle string
  | Fire timer
  | Sweep
  | Resume nat outcome
  | Advance int

definition step :: "config \<Rightarrow> DisconnectReason \<Rightarrow> runtime \<Rightarrow> action \<Rightarrow> world \<Rightarrow> world" where
  "step cfg dr rt a w =
     (case a of
        PostPair limited req idBytes keyBytes \<Rightarrow>
          (case post_api_pair cfg limited req idBytes keyBytes w of
             (resp, w1) \<Rightarrow> w1\<lparr> responses := responses w1 @ [resp] \<rparr>)
      | ConnectionUpdate h u \<Rightarrow>
          (let w1 = (if connection u = Some ''close'' then w\<lparr> live := live w - {h} \<rparr> else w) in
           case owner w1 h of
             None \<Rightarrow> w1
           | Some r \<Rightarrow> onConnectionUpdate cfg dr r h u w1)
      | CredsUpdate h content \<Rightarrow>
          (case owner w h of
             None \<Rightarrow> w
           | Some r \<Rightarrow> w\<lparr> dirs := insert (dir (heap w r)) (dirs w),
                           creds := (creds w)(dir (heap w r) := Some content) \<rparr>)
      | UserKnown h i \<Rightarrow> w\<lparr> user := (user w)(h := Some i) \<rparr>
      | Fire t \<Rightarrow> fire t w
      | Sweep \<Rightarrow> sweepExpired cfg w
      | Resume i out \<Rightarrow>
          (if i < length (pending w)
           then resume cfg dr rt (pending w ! i) out
                  (w\<lparr> pending := take i (pending w) @ drop (Suc i) (pending w) \<rparr>)
           else w)
      | Advance d \<Rightarrow> w\<lparr> clock := clock w + (if d < 0 then 0 else d) \<rparr>)"

definition run :: "config \<Rightarrow> DisconnectReason \<Rightarrow> runtime \<Rightarrow> action list \<Rightarrow> world \<Rightarrow> world" where
  "run cfg dr rt as w = fold (step cfg dr rt) as w"

text \<open>The world when the server starts listening: no session, no timer, no handle.\<close>

definition blank :: session where
  "blank = \<lparr> sid = [], streamKey = [], pair_method = [], phone = None, createdAt = 0,
             lastEventAt = 0, dir = [], sock = None, lastQr = None, lastCode = None,
             retries = 0, timers_ttl = None, timers_idle = None \<rparr>"

definition world0 :: world where
  "world0 = \<lparr> clock = 0, heap = (\<lambda>r. blank), next_ref = 0, sessions = [], armed = {},
              callbacks = (\<lambda>t. None), next_timer = 0, owner = (\<lambda>h. None), live = {},
              next_handle = 0, user = (\<lambda>h. None), end_calls = [], dirs = {},
              creds = (\<lambda>d. None), remove_calls = [], sent = [], emitted = [],
              responses = [], pending = [] \<rparr>"

text \<open>The handles that are live and belong to a given session object.\<close>

definition live_handles :: "ref \<Rightarrow> world \<Rightarrow> handle set" where
  "live_handles r w = {h \<in> live w. owner w h = Some r}"

subsection \<open>Start of the server\<close>

text \<open>
  The module from its first line to \<^verbatim>\<open>app.listen\<close>: the boot check, then the empty
  registry. The constants that do not take part in the check come as a record; the
  export mode and the secret are those read from the environment. When the check
  throws there is no server and no world.
\<close>

definition server_start :: "(string \<Rightarrow> string option) \<Rightarrow> config \<Rightarrow> string + (config \<times> world)" where
  "server_start env others =
     (case boot env of
        Inl err \<Rightarrow> Inl err
      | Inr (enc, secret) \<Rightarrow>
          Inr (others\<lparr> EXPORT_ENCRYPTED := enc, SESSION_SECRET := secret \<rparr>, world0))"

subsection \<open>One call of \<^verbatim>\<open>cleanupSession\<close> run to its end\<close>

text \<open>
  The segments of one call with nothing in between: the call itself, then the
  continuation it has suspended resumes, at the return of \<^verbatim>\<open>end()\<close> when there was
  a handle, and at the return of \<^verbatim>\<open>fs.remove\<close> with its result.
\<close>

definition cleanup_to_completion ::
  "config \<Rightarrow> DisconnectReason \<Rightarrow> runtime \<Rightarrow> ref \<Rightarrow> outcome \<Rightarrow> world \<Rightarrow> world" where
  "cleanup_to_completion cfg dr rt r out w =
     (let n = length (pending w);
          w1 = cleanupSession r w;
          w2 = (case sock (heap w r) of
                  Some h \<Rightarrow> step cfg dr rt (Resume n (Resolved [])) w1
                | None \<Rightarrow> w1)
      in step cfg dr rt (Resume n out) w2)"

subsection \<open>What the export asks of the runtime\<close>

text \<open>
  The exporter and the decrypt script meet through the runtime. For the credential
  bytes of one export, the runtime is taken to behave on the values of that export
  as Node does: twelve random bytes, a sixteen-byte tag, a ciphertext as long as the
  payload, which is not empty; decryption under the same key, nonce and tag gives
  the payload back; the UTF-8 codec and \<^verbatim>\<open>JSON.parse\<close> give the object back from
  the text of \<^verbatim>\<open>JSON.stringify\<close>.
\<close>

definition runtime_roundtrip :: "config \<Rightarrow> runtime \<Rightarrow> string \<Rightarrow> bool" where
  "runtime_roundtrip cfg rt credsBytes =
     (let key = scryptSync rt (SESSION_SECRET cfg) ''mantra-pair'' 32;
          iv = randomBytes rt 12;
          obj = envelope (base64_encode credsBytes) (now rt);
          payload = utf8_bytes rt (JSON_stringify rt obj);
          sealed = gcmEncrypt rt key iv payload
      in length iv = 12 \<and> length (snd sealed) = 16
         \<and> length (fst sealed) = length payload \<and> payload \<noteq> []
         \<and> gcmDecrypt rt key iv (snd sealed) (fst sealed) = Some payload
         \<and> JSON_parse rt (utf8_string rt payload) = Some obj)"

text \<open>The two substitutions of \<^verbatim>\<open>b64url\<close> and the two of \<^verbatim>\<open>b64urlDecodeToBuf\<close>, on one
  character.\<close>

definition to_url :: "char \<Rightarrow> char" where
  "to_url c = (if (if c = CHR ''+'' then CHR ''-'' else c) = CHR ''/'' then CHR ''_''
               else (if c = CHR ''+'' then CHR ''-'' else c))"

definition from_url :: "char \<Rightarrow> char" where
  "from_url c = (if (if c = CHR ''-'' then CHR ''+'' else c) = CHR ''_'' then CHR ''/''
                 else (if c = CHR ''-'' then CHR ''+'' else c))"

text \<open>The alphabet of URL-safe base64.\<close>

definition b64url_alphabet :: string where
  "b64url_alphabet = ''ABCDEFGHIJKLMNOPQRSTUVWXYZabcdefghijklmnopqrstuvwxyz0123456789-_''"

subsection \<open>Concrete instances\<close>

text \<open>
  A stand-in runtime for concrete runs: a fixed key and nonce, a cipher that reverses
  the payload and checks a constant tag, the JSON text of the envelope and a reader
  for that text. It is used to evaluate the definitions, nowhere else.
\<close>

definition fake_stringify :: "json \<Rightarrow> string" where
  "fake_stringify j =
     (case j of
        JObject [(k1, JNumber v), (k2, JString c), (k3, JNumber t)] \<Rightarrow>
          ''{\"'' @ k1 @ ''\":'' @ decimal v @ '',\"'' @ k2 @ ''\":\"'' @ c @ ''\",\"'' @ k3 @ ''\":''
          @ decimal t @ ''}''
      | _ \<Rightarrow> ''null'')"

definition digit_value :: "char \<Rightarrow> int" where
  "digit_value c = int (of_char c) - 48"

definition fake_parse :: "string \<Rightarrow> json option" where
  "fake_parse str =
     (if take 16 str \<noteq> ''{\"v\":1,\"creds\":\"'' then None
      else
        let c = takeWhile (\<lambda>x. x \<noteq> CHR 0x22) (drop 16 str);
            rest = drop (16 + length c) str
        in if take 7 rest \<noteq> ''\",\"ts\":'' then None
           else
             let ds = takeWhile (\<lambda>x. x \<noteq> CHR ''}'') (drop 7 rest)
             in Some (envelope c (foldl (\<lambda>acc d. acc * 10 + digit_value d) 0 ds)))"

definition fake_runtime :: runtime where
  "fake_runtime =
     \<lparr> scryptSync = (\<lambda>secret salt n. take n (concat (replicate n (secret @ salt)))),
       randomBytes = (\<lambda>n. replicate n (CHR 0x5A)),
       gcmEncrypt = (\<lambda>key iv pt. (rev pt, take 16 (key @ iv))),
       gcmDecrypt = (\<lambda>key iv tag ct. if tag = take 16 (key @ iv) then Some (rev ct) else None),
       JSON_stringify = fake_stringify,
       JSON_parse = fake_parse,
       utf8_bytes = (\<lambda>str. str),
       utf8_string = (\<lambda>buf. buf),
       now = 1700000000000 \<rparr>"

definition encrypted_defaults :: config where
  "encrypted_defaults = defaults\<lparr> EXPORT_ENCRYPTED := True, SESSION_SECRET := ''s3cret'' \<rparr>"

definition code_request :: request where
  "code_request = \<lparr> x_api_key = None, body_method = Some ''code'', body_phone = Some ''15551234567'' \<rparr>"

definition qr_request :: request where
  "qr_request = \<lparr> x_api_key = None, body_method = Some ''qr'', body_phone = None \<rparr>"

definition no_phone_request :: request where
  "no_phone_request = \<lparr> x_api_key = None, body_method = Some ''code'', body_phone = None \<rparr>"

definition boom :: "int \<Rightarrow> error_obj" where
  "boom c = \<lparr> output_statusCode = Some c, data_statusCode = None, own_statusCode = None,
              response_status = None, message = Some ''Connection Closed'' \<rparr>"

definition closed_with :: "int \<Rightarrow> update" where
  "closed_with c = \<lparr> connection = Some ''close'', qr = None, lastDisconnect = Some (boom c) \<rparr>"

definition finished :: outcome where
  "finished = Resolved []"

text \<open>
  A pairing by code whose connection is lost while \<^verbatim>\<open>requestPairingCode\<close> is
  pending. The close event starts a retry; then the pending request is rejected, with
  \<^verbatim>\<open>connectionClosed\<close>, and the \<^verbatim>\<open>catch\<close> starts a second one. Both delays elapse
  and both call \<^verbatim>\<open>startPairing\<close>.
\<close>

definition double_retry :: "action list" where
  "double_retry =
     [PostPair False code_request ''abcdefgh'' ''0123456789abcdefgh'',
      Resume 0 finished, Resume 0 finished, Resume 0 finished,
      Advance 5000, Resume 0 finished,
      Advance 1000, ConnectionUpdate 0 (closed_with 408),
      Resume 1 finished,
      Resume 0 (Rejected (boom 428)),
      Advance 4000, Resume 0 finished,
      Resume 1 finished, Resume 1 finished, Resume 1 finished,
      Advance 4000, Resume 0 finished,
      Resume 1 finished, Resume 1 finished, Resume 1 finished]"

definition world_double :: world where
  "world_double = run defaults baileys fake_runtime double_retry world0"

text \<open>
  A pairing by QR code whose connection is lost; during the delay of the retry the
  TTL timer fires and the cleanup runs to its end; then the delay elapses.
\<close>

definition removed_while_waiting :: "action list" where
  "removed_while_waiting =
     [PostPair False qr_request ''abcdefgh'' ''0123456789abcdefgh'',
      Resume 0 finished, Resume 0 finished, Resume 0 finished,
      Advance 298000, ConnectionUpdate 0 (closed_with 408),
      Resume 0 finished,
      Advance 2000, Fire 0,
      Resume 1 finished,
      Advance 2000]"

definition world_removed :: world where
  "world_removed = run defaults baileys fake_runtime removed_while_waiting world0"

text \<open>
  A pairing by QR code that reaches its TTL: the timer fires, the cleanup begins,
  \<^verbatim>\<open>end()\<close> returns and \<^verbatim>\<open>fs.remove\<close> is pending. Then the sweep comes by before
  \<^verbatim>\<open>fs.remove\<close> has returned.
\<close>

definition expiry_begins :: "action list" where
  "expiry_begins =
     [PostPair False qr_request ''abcdefgh'' ''0123456789abcdefgh'',
      Resume 0 finished, Resume 0 finished, Resume 0 finished,
      Advance 300001, Fire 0, Resume 0 finished]"

definition expiry_then_sweep :: "action list" where
  "expiry_then_sweep =
     expiry_begins @ [Sweep, Resume 0 finished, Resume 0 finished, Resume 0 finished]"

definition world_expiring :: world where
  "world_expiring = run defaults baileys fake_runtime expiry_begins world0"

definition world_swept :: world where
  "world_swept = run defaults baileys fake_runtime expiry_then_sweep world0"

text \<open>
  A pairing by QR code that succeeds: the account becomes known, the credentials are
  written, the connection opens, and the settle delay elapses; \<^verbatim>\<open>fs.readFile\<close> is
  then pending.
\<close>

definition opened :: update where
  "opened = \<lparr> connection = Some ''open'', qr = None, lastDisconnect = None \<rparr>"

definition paired_by_qr :: "action list" where
  "paired_by_qr =
     [PostPair False qr_request ''abcdefgh'' ''0123456789abcdefgh'',
      Resume 0 finished, Resume 0 finished, Resume 0 finished,
      UserKnown 0 ''254700000000:12@s.whatsapp.net'',
      CredsUpdate 0 ''{\"me\":1}'',
      ConnectionUpdate 0 opened,
      Resume 0 finished]"

definition world_paired :: world where
  "world_paired = run defaults baileys fake_runtime paired_by_qr world0"

text \<open>A pairing by QR code that has opened its connection and waits.\<close>

definition world_waiting :: world where
  "world_waiting =
     run defaults baileys fake_runtime
       [PostPair False qr_request ''abcdefgh'' ''0123456789abcdefgh'',
        Resume 0 finished, Resume 0 finished, Resume 0 finished] world0"

text \<open>
  A pairing by QR code that reaches its TTL, where the library reports the close of
  the connection right after the cleanup has called \<^verbatim>\<open>end()\<close>: the handler still
  finds its handle in the session and starts a retry, while the cleanup goes on.
\<close>

definition close_during_cleanup :: "action list" where
  "close_during_cleanup =
     [PostPair False qr_request ''abcdefgh'' ''0123456789abcdefgh'',
      Resume 0 finished, Resume 0 finished, Resume 0 finished,
      Advance 300001, Fire 0,
      ConnectionUpdate 0 (closed_with 428),
      Resume 0 finished, Resume 1 finished,
      Resume 0 finished, Advance 4000, Resume 0 finished]"

definition world_closed_during_cleanup :: world where
  "world_closed_during_cleanup = run defaults baileys fake_runtime close_during_cleanup world0"

text \<open>A configuration with a negative base delay.\<close>

definition negative_delay :: config where
  "negative_delay = defaults\<lparr> RETRY_DELAY_MS := - 1000 \<rparr>"

text \<open>Two environments: encrypted export without a secret, and with one.\<close>

definition env_enc_only :: "string \<Rightarrow> string option" where
  "env_enc_only = (\<lambda>k. None)(''EXPORT_ENCRYPTED'' := Some ''TRUE'')"

definition env_enc_secret :: "string \<Rightarrow> string option" where
  "env_enc_secret =
     (\<lambda>k. None)(''EXPORT_ENCRYPTED'' := Some ''true'', ''SESSION_SECRET'' := Some '' s3cret '')"

section \<open>Properties\<close>

subsection \<open>Retry policy\<close>

text \<open>
  C4. Once the attempt count has reached \<^verbatim>\<open>MAX_RETRIES\<close> there is no retry, whatever
  the reason, the absent one and the listed ones included: neither \<^verbatim>\<open>shouldRetry\<close>
  nor the condition of the two retry branches of \<^verbatim>\<open>startPairing\<close> holds.
\<close>

theorem C4_no_retry_at_max:
  assumes "n \<ge> MAX_RETRIES cfg"
  shows "\<not> shouldRetry cfg dr n r \<and> \<not> retryGate cfg dr n r"
  using assms by (simp add: shouldRetry_def retryGate_def)

theorem C4_no_retry_at_max_witness:
  "(8::int) \<ge> MAX_RETRIES defaults
   \<and> \<not> shouldRetry defaults baileys 8 None \<and> \<not> retryGate defaults baileys 8 None
   \<and> \<not> shouldRetry defaults baileys 9 (Some 408) \<and> \<not> retryGate defaults baileys 9 (Some 408)"
proof -
  have a: "(8::int) \<ge> MAX_RETRIES defaults" and b: "(9::int) \<ge> MAX_RETRIES defaults"
    by (simp_all add: defaults_def)
  from C4_no_retry_at_max [OF a, of baileys None] C4_no_retry_at_max [OF b, of baileys "Some 408"] a
  show ?thesis by simp
qed

text \<open>
  C5. With the attempt count below \<^verbatim>\<open>MAX_RETRIES\<close>, the condition of the retry
  branches of \<^verbatim>\<open>startPairing\<close> holds for the absent reason and for each of
  connection closed, connection lost, timed out, restart required and service
  unavailable, and fails for logged out and for every reason outside that list.
  \<^verbatim>\<open>shouldRetry\<close> decides the same way over its own list, which has the first four
  reasons and not service unavailable. That the logged-out code is none of the listed
  codes is a fact about the library's enum.
\<close>

theorem C5_retry_decision:
  assumes "n < MAX_RETRIES cfg" and "loggedOut dr \<notin> set (retryable dr)"
  shows "retryGate cfg dr n None
    \<and> retryGate cfg dr n (Some (connectionClosed dr))
    \<and> retryGate cfg dr n (Some (connectionLost dr))
    \<and> retryGate cfg dr n (Some (timedOut dr))
    \<and> retryGate cfg dr n (Some (restartRequired dr))
    \<and> retryGate cfg dr n (Some (unavailableService dr))
    \<and> \<not> retryGate cfg dr n (Some (loggedOut dr))
    \<and> (\<forall>r. r \<notin> {connectionClosed dr, connectionLost dr, timedOut dr, restartRequired dr,
                   unavailableService dr} \<longrightarrow> \<not> retryGate cfg dr n (Some r))
    \<and> shouldRetry cfg dr n None
    \<and> shouldRetry cfg dr n (Some (connectionClosed dr))
    \<and> shouldRetry cfg dr n (Some (connectionLost dr))
    \<and> shouldRetry cfg dr n (Some (timedOut dr))
    \<and> shouldRetry cfg dr n (Some (restartRequired dr))
    \<and> \<not> shouldRetry cfg dr n (Some (loggedOut dr))
    \<and> (\<forall>r. r \<notin> {connectionClosed dr, connectionLost dr, timedOut dr, restartRequired dr}
            \<longrightarrow> \<not> shouldRetry cfg dr n (Some r))"
  using assms
  by (simp add: retryGate_def isRetryableDisconnectReason_def retryable_def shouldRetry_def)

theorem C5_retry_decision_witness:
  "(0::int) < MAX_RETRIES defaults \<and> loggedOut baileys \<notin> set (retryable baileys)
   \<and> retryGate defaults baileys 0 None
   \<and> retryGate defaults baileys 0 (Some 503)
   \<and> \<not> retryGate defaults baileys 0 (Some 401)
   \<and> \<not> retryGate defaults baileys 0 (Some 500)
   \<and> shouldRetry defaults baileys 0 (Some 408)
   \<and> \<not> shouldRetry defaults baileys 0 (Some 503)"
proof -
  have a: "(0::int) < MAX_RETRIES defaults" by (simp add: defaults_def)
  have b: "loggedOut baileys \<notin> set (retryable baileys)" by (simp add: baileys_def retryable_def)
  have c: "(500::int) \<notin> {connectionClosed baileys, connectionLost baileys, timedOut baileys,
             restartRequired baileys, unavailableService baileys}"
    and d: "(503::int) \<notin> {connectionClosed baileys, connectionLost baileys, timedOut baileys,
             restartRequired baileys}"
    by (simp_all add: baileys_def)
  from C5_retry_decision [OF a b] a b c d show ?thesis by (simp add: baileys_def)
qed

text \<open>
  The claim as stated, with one allow-list of five reasons for the retry decision,
  fails on \<^verbatim>\<open>shouldRetry\<close>: service unavailable is in the list of
  \<^verbatim>\<open>isRetryableDisconnectReason\<close>, and \<^verbatim>\<open>shouldRetry\<close> refuses it at attempt 0.
\<close>

theorem C5_counterexample:
  "0 < MAX_RETRIES defaults
   \<and> unavailableService baileys \<in> set (retryable baileys)
   \<and> \<not> shouldRetry defaults baileys 0 (Some (unavailableService baileys))"
  by (simp add: defaults_def baileys_def retryable_def shouldRetry_def)

subsection \<open>Backoff\<close>

text \<open>
  C6, as the code has it. The delay a retry waits is
  \<^verbatim>\<open>min(RETRY_DELAY_MAX_MS, RETRY_DELAY_MS * n)\<close> for the attempt count \<open>n\<close> of the
  session at that moment: it is the delay the suspended \<^verbatim>\<open>await delay(backoff)\<close>
  carries. It never exceeds the cap, whatever the configuration. It does not decrease
  when the attempt count grows provided the base delay is not negative; the base delay
  is read from the environment and nothing checks its sign.
\<close>

theorem C6_backoff_linear_capped:
  "backoff cfg n = min (RETRY_DELAY_MAX_MS cfg) (RETRY_DELAY_MS cfg * n)
   \<and> backoff cfg n \<le> RETRY_DELAY_MAX_MS cfg
   \<and> (0 \<le> RETRY_DELAY_MS cfg \<longrightarrow> (\<forall>m. n \<le> m \<longrightarrow> backoff cfg n \<le> backoff cfg m))
   \<and> pending (retry_wait cfg k r w) = pending w @ [k (backoff cfg (retries (heap w r)))]"
proof -
  have "0 \<le> RETRY_DELAY_MS cfg \<Longrightarrow> n \<le> m \<Longrightarrow> backoff cfg n \<le> backoff cfg m" for m
  proof -
    assume "0 \<le> RETRY_DELAY_MS cfg" "n \<le> m"
    then have "RETRY_DELAY_MS cfg * n \<le> RETRY_DELAY_MS cfg * m" by (rule mult_left_mono[rotated])
    then show ?thesis by (simp add: backoff_def min_le_iff_disj)
  qed
  then show ?thesis
    by (simp add: backoff_def retry_wait_def suspend_def obj_def Let_def)
qed

theorem C6_backoff_linear_capped_witness:
  "backoff defaults 1 = 4000 \<and> backoff defaults 7 = 28000 \<and> backoff defaults 8 = 30000
   \<and> (0::int) \<le> RETRY_DELAY_MS defaults \<and> backoff defaults 1 \<le> backoff defaults 8"
proof -
  have a: "(0::int) \<le> RETRY_DELAY_MS defaults" by (simp add: defaults_def)
  from C6_backoff_linear_capped [of defaults 1]
  have "0 \<le> RETRY_DELAY_MS defaults \<longrightarrow> (\<forall>m. 1 \<le> m \<longrightarrow> backoff defaults 1 \<le> backoff defaults m)"
    by blast
  with a have b: "backoff defaults 1 \<le> backoff defaults 8" by simp
  have c: "backoff defaults 1 = 4000" "backoff defaults 7 = 28000" "backoff defaults 8 = 30000"
    by (simp_all add: backoff_def defaults_def)
  show ?thesis by (intro conjI c a b)
qed

text \<open>
  With a base delay of \<open>-1000\<close> the first retry waits \<open>-1000\<close> and the second
  \<open>-2000\<close>: the delay decreases while the attempt count grows.
\<close>

theorem C6_counterexample:
  "(1::int) \<le> 2
   \<and> backoff negative_delay 1 = - 1000 \<and> backoff negative_delay 2 = - 2000
   \<and> backoff negative_delay 2 < backoff negative_delay 1"
  by (simp add: backoff_def negative_delay_def defaults_def)

subsection \<open>Phone validation and the creation request\<close>

lemma stripNonDigits_digits: "\<forall>c\<in>set (stripNonDigits str). isDigit c"
  by (simp add: stripNonDigits_def)

text \<open>
  C8. \<^verbatim>\<open>validatePhone\<close> keeps the digits of its input, in order, and accepts exactly
  when there are between 10 and 15 of them; the absent phone, the empty string and a
  string without a digit are rejected. For a creation request with method
  \<^verbatim>\<open>code\<close> (given or by default) whose phone is rejected, the handler answers 400
  with the validation error and leaves the world as it was: no session object, no
  registry entry, no timer, no id in the answer. The same holds behind the rate
  limiter and the API-key gate, which answer 429 or 401 before the handler runs.
\<close>

theorem C8_phone_validation:
  "(validatePhone (Some p) = Inr d \<longleftrightarrow>
      d = filter isDigit p \<and> 10 \<le> length (filter isDigit p) \<and> length (filter isDigit p) \<le> 15)
   \<and> (isl (validatePhone (Some p)) \<longleftrightarrow>
      length (filter isDigit p) < 10 \<or> 15 < length (filter isDigit p))
   \<and> isl (validatePhone None) \<and> isl (validatePhone (Some []))
   \<and> (filter isDigit p = [] \<longrightarrow> isl (validatePhone (Some p)))
   \<and> (orElse (body_method req) ''code'' = ''code'' \<and> isl (validatePhone (body_phone req)) \<longrightarrow>
        pairHandler cfg req idBytes keyBytes w = (Refused 400 ''Phone number must be 10-15 digits'', w)
        \<and> snd (post_api_pair cfg limited req idBytes keyBytes w) = w
        \<and> (\<exists>c e. fst (post_api_pair cfg limited req idBytes keyBytes w) = Refused c e)
        \<and> (\<not> limited \<and> requireApiKey cfg req \<longrightarrow>
             status_code (fst (post_api_pair cfg limited req idBytes keyBytes w)) = 400))"
proof -
  have v: "validatePhone x = Inl ''Phone number must be 10-15 digits''" if "isl (validatePhone x)" for x
    using that by (simp add: validatePhone_def Let_def split: if_splits)
  have h: "pairHandler cfg req idBytes keyBytes w = (Refused 400 ''Phone number must be 10-15 digits'', w)"
    if "orElse (body_method req) ''code'' = ''code''" "isl (validatePhone (body_phone req))"
    using that v[OF that(2)] by (simp add: pairHandler_def Let_def)
  show ?thesis
    using h by (auto simp: validatePhone_def stripNonDigits_def Let_def post_api_pair_def status_code_def)
qed

theorem C8_phone_validation_witness:
  "validatePhone (Some ''+1 (555) 123-4567'') = Inr ''15551234567''
   \<and> isl (validatePhone (Some ''555-1234''))
   \<and> isl (validatePhone (Some ''call me maybe''))
   \<and> pairHandler defaults no_phone_request ''abcdefgh'' ''0123456789abcdefgh'' world0
       = (Refused 400 ''Phone number must be 10-15 digits'', world0)
   \<and> status_code (fst (post_api_pair defaults False no_phone_request ''abcdefgh'' ''0123456789abcdefgh'' world0)) = 400"
proof -
  note t = C8_phone_validation [of _ _ no_phone_request defaults "''abcdefgh''" "''0123456789abcdefgh''" world0 False]
  have m: "orElse (body_method no_phone_request) ''code'' = ''code''"
    by (simp add: orElse_def no_phone_request_def)
  have n: "body_phone no_phone_request = None" by (simp add: no_phone_request_def)
  have k: "requireApiKey defaults no_phone_request" by (simp add: requireApiKey_def defaults_def)
  have a: "validatePhone (Some ''+1 (555) 123-4567'') = Inr ''15551234567''"
    using C8_phone_validation [of "''+1 (555) 123-4567''" "''15551234567''"] by (simp add: isDigit_def)
  have b: "isl (validatePhone (Some ''555-1234''))"
    using C8_phone_validation [of "''555-1234''"] by (simp add: isDigit_def)
  have c: "isl (validatePhone (Some ''call me maybe''))"
    using C8_phone_validation [of "''call me maybe''"] by (simp add: isDigit_def)
  have i: "isl (validatePhone (body_phone no_phone_request))" using t n by simp
  have d: "pairHandler defaults no_phone_request ''abcdefgh'' ''0123456789abcdefgh'' world0
       = (Refused 400 ''Phone number must be 10-15 digits'', world0)"
    using t m i by blast
  have e: "status_code (fst (post_api_pair defaults False no_phone_request ''abcdefgh'' ''0123456789abcdefgh'' world0)) = 400"
    using t m i k by blast
  show ?thesis by (intro conjI a b c d e)
qed

subsection \<open>Boot check\<close>

lemma absent_secret:
  "env ''SESSION_SECRET'' = None \<or> env ''SESSION_SECRET'' = Some [] \<Longrightarrow> env_SESSION_SECRET env = []"
  by (auto simp: env_SESSION_SECRET_def orElse_def trim_def)

text \<open>
  C9. With \<^verbatim>\<open>EXPORT_ENCRYPTED\<close> on (the value is \<^verbatim>\<open>true\<close> in any letter case) and
  \<^verbatim>\<open>SESSION_SECRET\<close> absent, empty or blank, loading the module throws before the
  registry and the routes exist. So whenever the server has started, encrypted mode
  comes with a secret that is not empty, and the server starts with no session.
\<close>

theorem C9_boot_refuses_without_secret:
  "(env_EXPORT_ENCRYPTED env \<and> (env ''SESSION_SECRET'' = None \<or> env ''SESSION_SECRET'' = Some [])
      \<longrightarrow> boot env = Inl ''SESSION_SECRET is required when EXPORT_ENCRYPTED=true''
          \<and> server_start env others = Inl ''SESSION_SECRET is required when EXPORT_ENCRYPTED=true'')
   \<and> (env_EXPORT_ENCRYPTED env \<and> trim (orElse (env ''SESSION_SECRET'') []) = []
      \<longrightarrow> server_start env others = Inl ''SESSION_SECRET is required when EXPORT_ENCRYPTED=true'')
   \<and> (server_start env others = Inr (cfg, w)
      \<longrightarrow> w = world0 \<and> (EXPORT_ENCRYPTED cfg \<longrightarrow> SESSION_SECRET cfg \<noteq> []))"
proof (intro conjI impI)
  assume a: "env_EXPORT_ENCRYPTED env \<and> (env ''SESSION_SECRET'' = None \<or> env ''SESSION_SECRET'' = Some [])"
  then have "env_SESSION_SECRET env = []" using absent_secret by blast
  with a show "boot env = Inl ''SESSION_SECRET is required when EXPORT_ENCRYPTED=true''"
    by (simp add: boot_def)
  then show "server_start env others = Inl ''SESSION_SECRET is required when EXPORT_ENCRYPTED=true''"
    by (simp add: server_start_def)
next
  assume "env_EXPORT_ENCRYPTED env \<and> trim (orElse (env ''SESSION_SECRET'') []) = []"
  then show "server_start env others = Inl ''SESSION_SECRET is required when EXPORT_ENCRYPTED=true''"
    by (simp add: server_start_def boot_def env_SESSION_SECRET_def)
next
  assume s: "server_start env others = Inr (cfg, w)"
  then show "w = world0"
    by (auto simp: server_start_def split: sum.splits)
  assume "EXPORT_ENCRYPTED cfg"
  with s show "SESSION_SECRET cfg \<noteq> []"
    by (auto simp: server_start_def boot_def split: sum.splits if_splits)
qed


theorem C9_boot_refuses_without_secret_witness:
  "env_EXPORT_ENCRYPTED env_enc_only \<and> env_enc_only ''SESSION_SECRET'' = None
   \<and> server_start env_enc_only defaults = Inl ''SESSION_SECRET is required when EXPORT_ENCRYPTED=true''
   \<and> server_start env_enc_secret defaults = Inr (encrypted_defaults, world0)
   \<and> EXPORT_ENCRYPTED encrypted_defaults \<and> SESSION_SECRET encrypted_defaults \<noteq> []"
proof -
  have a: "env_EXPORT_ENCRYPTED env_enc_only" by code_simp
  have b: "env_enc_only ''SESSION_SECRET'' = None" by (simp add: env_enc_only_def)
  have c: "server_start env_enc_only defaults = Inl ''SESSION_SECRET is required when EXPORT_ENCRYPTED=true''"
    using C9_boot_refuses_without_secret [of env_enc_only defaults] a b by blast
  have "boot env_enc_secret = Inr (True, ''s3cret'')" by code_simp
  then have d: "server_start env_enc_secret defaults = Inr (encrypted_defaults, world0)"
    by (simp add: server_start_def encrypted_defaults_def)
  have e: "EXPORT_ENCRYPTED encrypted_defaults" by (simp add: encrypted_defaults_def)
  have f: "SESSION_SECRET encrypted_defaults \<noteq> []"
    using C9_boot_refuses_without_secret [of env_enc_secret defaults encrypted_defaults world0] d e by blast
  show ?thesis by (intro conjI a b c d e f)
qed

subsection \<open>Base64 there and back\<close>

lemma sextet_lt_1: fixes a :: nat assumes "a < 256" shows "a div 4 < 64"
  using assms by simp

lemma sextet_lt_2: fixes a b :: nat assumes "b < 256" shows "a mod 4 * 16 + b div 16 < 64"
proof -
  have "a mod 4 \<le> 3" by simp
  moreover have "b div 16 < 16" using assms by simp
  ultimately show ?thesis by linarith
qed

lemma sextet_lt_3: fixes b c :: nat assumes "c < 256" shows "b mod 16 * 4 + c div 64 < 64"
proof -
  have "b mod 16 \<le> 15" by simp
  moreover have "c div 64 < 4" using assms by simp
  ultimately show ?thesis by linarith
qed

lemma octet_1: fixes a b :: nat assumes "b < 256" shows "a div 4 * 4 + (a mod 4 * 16 + b div 16) div 16 = a"
proof -
  have "b div 16 < 16" using assms by simp
  then have "(a mod 4 * 16 + b div 16) div 16 = a mod 4" by simp
  then show ?thesis by simp
qed

lemma octet_2: fixes a b c :: nat assumes "b < 256" "c < 256"
  shows "(a mod 4 * 16 + b div 16) mod 16 * 16 + (b mod 16 * 4 + c div 64) div 4 = b"
proof -
  have "b div 16 < 16" using assms by simp
  then have x: "(a mod 4 * 16 + b div 16) mod 16 = b div 16" by simp
  have "c div 64 < 4" using assms by simp
  then have y: "(b mod 16 * 4 + c div 64) div 4 = b mod 16" by simp
  show ?thesis unfolding x y by simp
qed

lemma octet_3: fixes b c :: nat assumes "c < 256"
  shows "(b mod 16 * 4 + c div 64) mod 4 * 64 + c mod 64 = c"
proof -
  have "c div 64 < 4" using assms by simp
  then have x: "(b mod 16 * 4 + c div 64) mod 4 = c div 64" by simp
  show ?thesis unfolding x by simp
qed

lemma sextets_bound: "\<forall>x\<in>set ns. x < 256 \<Longrightarrow> \<forall>s\<in>set (sextets ns). s < 64"
proof (induction ns rule: sextets.induct)
  case (1 a b c r)
  then have "a < 256" "b < 256" "c < 256" "\<forall>x\<in>set r. x < 256" by simp_all
  with 1 sextet_lt_1[of a] sextet_lt_2[of b a] sextet_lt_3[of c b] show ?case by simp
next
  case (2 a b)
  then have "a < 256" "b < 256" by simp_all
  with sextet_lt_1[of a] sextet_lt_2[of b a] sextet_lt_3[of 0 b] show ?case by simp
next
  case (3 a)
  then have "a < 256" by simp
  with sextet_lt_1[of a] sextet_lt_2[of 0 a] show ?case by simp
qed simp

lemma octets_sextets: "\<forall>x\<in>set ns. x < 256 \<Longrightarrow> octets (sextets ns) = ns"
proof (induction ns rule: sextets.induct)
  case (1 a b c r)
  then have "a < 256" "b < 256" "c < 256" "\<forall>x\<in>set r. x < 256" by simp_all
  with 1 octet_1[of b a] octet_2[of b c a] octet_3[of c b] show ?case by simp
next
  case (2 a b)
  then have "a < 256" "b < 256" by simp_all
  with octet_1[of b a] octet_2[of b 0 a] show ?case by simp
next
  case (3 a)
  with octet_1[of 0 a] show ?case by simp
qed simp

lemma alphabet_table:
  "list_all (\<lambda>i. unbase64 (b64char i) = Some i \<and> b64char i \<noteq> CHR ''=''
                \<and> to_url (b64char i) \<noteq> CHR ''='' \<and> from_url (to_url (b64char i)) = b64char i
                \<and> to_url (b64char i) \<in> set b64url_alphabet) [0..<64]"
  by code_simp

lemma b64char_facts:
  assumes "i < 64"
  shows "unbase64 (b64char i) = Some i" "b64char i \<noteq> CHR ''=''"
    "to_url (b64char i) \<noteq> CHR ''=''" "from_url (to_url (b64char i)) = b64char i"
    "to_url (b64char i) \<in> set b64url_alphabet"
  using alphabet_table assms by (simp_all add: list_all_iff)

lemma map_filter_unbase64:
  "\<forall>s\<in>set ss. s < 64 \<Longrightarrow> List.map_filter unbase64 (map b64char ss) = ss"
  by (induction ss) (simp_all add: List.map_filter_simps b64char_facts)

lemma takeWhile_body:
  "\<forall>s\<in>set ss. s < 64 \<Longrightarrow>
   takeWhile (\<lambda>c. c \<noteq> CHR ''='') (map b64char ss @ replicate k (CHR ''='')) = map b64char ss"
proof (induction ss)
  case Nil
  then show ?case by (cases k) simp_all
next
  case (Cons s ss)
  then show ?case by (simp add: b64char_facts)
qed

lemma decode_body:
  assumes "\<forall>s\<in>set ss. s < 64"
  shows "base64_decode (map b64char ss @ replicate k (CHR ''='')) = map char_of (octets ss)"
  using assms by (simp add: base64_decode_def takeWhile_body map_filter_unbase64)

lemma bytes_bound: "\<forall>x\<in>set (map of_char (buf::string)). x < (256::nat)"
  by simp

lemma sextets_of_bytes: "\<forall>s\<in>set (sextets (map of_char (buf::string))). s < 64"
  using sextets_bound[OF bytes_bound] .

lemma octets_of_bytes: "map char_of (octets (sextets (map of_char (buf::string)))) = buf"
  by (simp add: octets_sextets[OF bytes_bound] comp_def)

lemma base64_roundtrip: "base64_decode (base64_encode buf) = buf"
  unfolding base64_encode_def by (simp add: decode_body[OF sextets_of_bytes] octets_of_bytes)

lemma stripTrailing_padding:
  assumes "\<forall>c\<in>set xs. c \<noteq> a"
  shows "stripTrailing a (xs @ replicate k a) = xs"
proof -
  have "dropWhile (\<lambda>c. c = a) (replicate k a @ rev xs) = dropWhile (\<lambda>c. c = a) (rev xs)"
    by (rule dropWhile_append2) simp
  also have "\<dots> = rev xs"
    using assms by (cases "rev xs") (auto simp: in_set_conv_decomp dest: arg_cong[where f=set])
  finally show ?thesis by (simp add: stripTrailing_def)
qed

lemma b64url_body:
  "b64url buf = map to_url (map b64char (sextets (map of_char buf)))"
proof -
  let ?body = "map b64char (sextets (map of_char buf))"
  have "replaceAll (CHR ''/'') (CHR ''_'') (replaceAll (CHR ''+'') (CHR ''-'') (base64_encode buf))
        = map to_url ?body @ replicate (padding (length buf)) (CHR ''='')"
    by (simp add: replaceAll_def base64_encode_def to_url_def comp_def)
  moreover have "\<forall>c\<in>set (map to_url ?body). c \<noteq> CHR ''=''"
    using sextets_of_bytes[of buf] by (auto simp: b64char_facts)
  ultimately show ?thesis by (simp add: b64url_def stripTrailing_padding)
qed

lemma b64url_alphabet_only: "set (b64url buf) \<subseteq> set b64url_alphabet"
  using sextets_of_bytes[of buf] by (auto simp: b64url_body b64char_facts)

lemma b64url_roundtrip: "b64urlDecodeToBuf (b64url buf) = buf"
proof -
  let ?ss = "sextets (map of_char buf)"
  have "replaceAll (CHR ''_'') (CHR ''/'') (replaceAll (CHR ''-'') (CHR ''+'') (b64url buf))
        = map from_url (map to_url (map b64char ?ss))"
    by (simp add: replaceAll_def b64url_body from_url_def comp_def)
  also have "\<dots> = map b64char ?ss"
    using sextets_of_bytes[of buf] by (simp add: b64char_facts)
  finally have e: "replaceAll (CHR ''_'') (CHR ''/'') (replaceAll (CHR ''-'') (CHR ''+'') (b64url buf))
        = map b64char ?ss" .
  show ?thesis
    unfolding b64urlDecodeToBuf_def Let_def e
    by (simp add: decode_body[OF sextets_of_bytes] octets_of_bytes
             decode_body[OF sextets_of_bytes, of _ 0, simplified])
qed


subsection \<open>Export\<close>

lemma export_single: "\<exists>t. exportTokensFromCreds cfg rt b = [t]"
  by (simp add: exportTokensFromCreds_def Let_def split: prod.splits)

text \<open>
  C10. The exporter returns exactly one token for every credential buffer, in plain
  and in encrypted mode, and so does \<^verbatim>\<open>exportSessionTokens\<close>. In the delivery that
  follows the read of \<^verbatim>\<open>creds.json\<close>, when the sends succeed, one token message and
  then the closing note are sent, to the account of the connection, and nothing else.
\<close>

theorem C10_one_token:
  "length (exportTokensFromCreds cfg rt credsBytes) = 1
   \<and> length (exportSessionTokens credsBytes) = 1
   \<and> (i < length (pending w) \<and> pending w ! i = CU_readFile r h \<and> safeSelfJid (user w h) = Some jid \<longrightarrow>
        sent (run cfg dr rt [Resume i (Resolved credsBytes),
                             Resume (length (pending w) - 1) finished,
                             Resume (length (pending w) - 1) finished] w)
        = sent w @ [(h, jid, TokenBlock (hd (exportTokensFromCreds cfg (rt\<lparr> now := clock w \<rparr>) credsBytes))),
                    (h, jid, PairComplete (if EXPORT_ENCRYPTED cfg then ''MantraEnc~...''
                                           else ''Mantra~...'') (clock w))])"
proof -
  obtain t where t: "exportTokensFromCreds cfg (rt\<lparr> now := clock w \<rparr>) credsBytes = [t]"
    using export_single by blast
  obtain t' where t': "exportTokensFromCreds cfg rt credsBytes = [t']"
    using export_single by blast
  let ?hint = "if EXPORT_ENCRYPTED cfg then ''MantraEnc~...'' else ''Mantra~...''"
  have "sent (run cfg dr rt [Resume i (Resolved credsBytes),
                             Resume (length (pending w) - 1) finished,
                             Resume (length (pending w) - 1) finished] w)
        = sent w @ [(h, jid, TokenBlock t), (h, jid, PairComplete ?hint (clock w))]"
    if i: "i < length (pending w)" and k: "pending w ! i = CU_readFile r h"
      and j: "safeSelfJid (user w h) = Some jid"
  proof -
    define p where "p = take i (pending w) @ drop (Suc i) (pending w)"
    have lp: "length (pending w) - 1 = length p" using i by (simp add: p_def)
    define w1 where "w1 = step cfg dr rt (Resume i (Resolved credsBytes)) w"
    have w1: "w1 = w\<lparr> pending := p @ [CU_sendToken r h jid []],
                      sent := sent w @ [(h, jid, TokenBlock t)] \<rparr>"
      using i k j t
      by (simp add: w1_def step_def p_def sendTokens_def sendMessage_def suspend_def)
    define w2 where "w2 = step cfg dr rt (Resume (length p) finished) w1"
    have w2: "w2 = w1\<lparr> pending := p @ [CU_tokenDelay r h jid []] \<rparr>"
      by (simp add: w2_def w1 step_def finished_def suspend_def)
    define w3 where "w3 = step cfg dr rt (Resume (length p) finished) w2"
    have w3: "sent w3 = sent w @ [(h, jid, TokenBlock t), (h, jid, PairComplete ?hint (clock w))]"
      by (simp add: w3_def w2 w1 step_def finished_def sendTokens_def sendNote_def
          sendMessage_def suspend_def)
    show ?thesis
      unfolding lp using w3 by (simp add: run_def w3_def w2_def w1_def)
  qed
  with t t' show ?thesis by (simp add: exportSessionTokens_def)
qed

theorem C10_one_token_witness:
  "0 < length (pending world_paired) \<and> pending world_paired ! 0 = CU_readFile 0 0
   \<and> safeSelfJid (user world_paired 0) = Some ''254700000000@s.whatsapp.net''
   \<and> sent (run defaults baileys fake_runtime
              [Resume 0 (Resolved ''{\"me\":1}''), Resume 0 finished, Resume 0 finished] world_paired)
       = [(0, ''254700000000@s.whatsapp.net'', TokenBlock ''Mantra~eyJtZSI6MX0=''),
          (0, ''254700000000@s.whatsapp.net'', PairComplete ''Mantra~...'' 0)]"
proof -
  have f: "let w = world_paired in
             0 < length (pending w) \<and> pending w ! 0 = CU_readFile 0 0
             \<and> safeSelfJid (user w 0) = Some ''254700000000@s.whatsapp.net''
             \<and> length (pending w) = 1 \<and> sent w = [] \<and> clock w = 0"
    by code_simp
  have a: "0 < length (pending world_paired)"
    and b: "pending world_paired ! 0 = CU_readFile 0 0"
    and c: "safeSelfJid (user world_paired 0) = Some ''254700000000@s.whatsapp.net''"
    and d: "length (pending world_paired) = 1" "sent world_paired = []" "clock world_paired = 0"
    using f by (simp_all add: Let_def)
  have g: "hd (exportTokensFromCreds defaults (fake_runtime\<lparr> now := 0 \<rparr>) ''{\"me\":1}'')
             = ''Mantra~eyJtZSI6MX0=''"
    and h: "\<not> EXPORT_ENCRYPTED defaults"
    by code_simp+
  from C10_one_token [of defaults fake_runtime "''{\"me\":1}''" 0 world_paired 0 0
      "''254700000000@s.whatsapp.net''" baileys] a b c
  have "sent (run defaults baileys fake_runtime
              [Resume 0 (Resolved ''{\"me\":1}''), Resume (length (pending world_paired) - 1) finished,
               Resume (length (pending world_paired) - 1) finished] world_paired)
        = sent world_paired @
          [(0, ''254700000000@s.whatsapp.net'',
            TokenBlock (hd (exportTokensFromCreds defaults
                              (fake_runtime\<lparr> now := clock world_paired \<rparr>) ''{\"me\":1}''))),
           (0, ''254700000000@s.whatsapp.net'',
            PairComplete (if EXPORT_ENCRYPTED defaults then ''MantraEnc~...'' else ''Mantra~...'')
              (clock world_paired))]"
    by blast
  then have e: "sent (run defaults baileys fake_runtime
              [Resume 0 (Resolved ''{\"me\":1}''), Resume 0 finished, Resume 0 finished] world_paired)
       = [(0, ''254700000000@s.whatsapp.net'', TokenBlock ''Mantra~eyJtZSI6MX0=''),
          (0, ''254700000000@s.whatsapp.net'', PairComplete ''Mantra~...'' 0)]"
    by (simp add: d g h)
  show ?thesis by (intro conjI a b c e)
qed

text \<open>
  C2. For every credential buffer, the decrypt script gives the buffer back from the
  token of the encrypted export, when both run with the same secret and the runtime
  does its part on the values of that export. The token is \<^verbatim>\<open>MantraEnc~\<close> and the
  URL-safe base64, without padding, of the 12-byte nonce, the 16-byte tag and the
  ciphertext; the script splits it into the same three parts, and the ciphertext
  decrypts under the scrypt key to the UTF-8 bytes of the JSON text of
  \<^verbatim>\<open>{ v: 1, creds: <base64 of the buffer>, ts: <now> }\<close>.
\<close>

theorem C2_encrypted_roundtrip:
  assumes enc: "EXPORT_ENCRYPTED cfg"
    and sec: "SESSION_SECRET cfg = trim secret" "trim secret \<noteq> []"
    and rt: "runtime_roundtrip cfg rt credsBytes"
  shows "\<exists>iv tag ciphertext.
           exportTokensFromCreds cfg rt credsBytes = [''MantraEnc~'' @ b64url (iv @ tag @ ciphertext)]
           \<and> length iv = 12 \<and> length tag = 16
           \<and> set (b64url (iv @ tag @ ciphertext)) \<subseteq> set b64url_alphabet
           \<and> b64urlDecodeToBuf (b64url (iv @ tag @ ciphertext)) = iv @ tag @ ciphertext
           \<and> gcmDecrypt rt (scryptSync rt (SESSION_SECRET cfg) ''mantra-pair'' 32) iv tag ciphertext
               = Some (utf8_bytes rt (JSON_stringify rt (envelope (base64_encode credsBytes) (now rt))))
           \<and> decrypt_session rt (Some secret)
                (Some (hd (exportTokensFromCreds cfg rt credsBytes))) = Inr credsBytes"
proof -
  define key where "key = scryptSync rt (SESSION_SECRET cfg) ''mantra-pair'' 32"
  define iv where "iv = randomBytes rt 12"
  define payload where
    "payload = utf8_bytes rt (JSON_stringify rt (envelope (base64_encode credsBytes) (now rt)))"
  define ciphertext where "ciphertext = fst (gcmEncrypt rt key iv payload)"
  define tag where "tag = snd (gcmEncrypt rt key iv payload)"
  from rt have liv: "length iv = 12" and ltag: "length tag = 16"
    and lct: "length ciphertext = length payload" and ne: "payload \<noteq> []"
    and dec: "gcmDecrypt rt key iv tag ciphertext = Some payload"
    and js: "JSON_parse rt (utf8_string rt payload) = Some (envelope (base64_encode credsBytes) (now rt))"
    by (simp_all add: runtime_roundtrip_def Let_def key_def iv_def payload_def ciphertext_def tag_def)
  define packed where "packed = iv @ tag @ ciphertext"
  have tok: "exportTokensFromCreds cfg rt credsBytes = [''MantraEnc~'' @ b64url packed]"
    using enc
    by (simp add: exportTokensFromCreds_def Let_def key_def iv_def payload_def ciphertext_def
        tag_def packed_def split: prod.splits)
  have len: "\<not> length packed < 12 + 16 + 1"
    using liv ltag lct ne by (cases payload) (simp_all add: packed_def)
  have parts: "take 12 packed = iv" "take 16 (drop 12 packed) = tag" "drop 28 packed = ciphertext"
    using liv ltag by (simp_all add: packed_def)
  have ok: "envelope_ok (envelope (base64_encode credsBytes) (now rt))"
    and cr: "envelope_creds (envelope (base64_encode credsBytes) (now rt)) = base64_encode credsBytes"
    by (simp_all add: envelope_ok_def envelope_creds_def envelope_def)
  have key': "scryptSync rt (trim secret) ''mantra-pair'' 32 = key"
    using sec by (simp add: key_def)
  have "decrypt_session rt (Some secret) (Some (''MantraEnc~'' @ b64url packed)) = Inr credsBytes"
    using sec(2) len
    by (simp add: decrypt_session_def Let_def b64url_roundtrip parts key' dec js ok cr
        base64_roundtrip)
  with tok liv ltag dec show ?thesis
    using b64url_alphabet_only b64url_roundtrip
    unfolding key_def payload_def packed_def by auto
qed

theorem C2_encrypted_roundtrip_witness:
  "EXPORT_ENCRYPTED encrypted_defaults
   \<and> SESSION_SECRET encrypted_defaults = trim '' s3cret ''
   \<and> runtime_roundtrip encrypted_defaults fake_runtime ''{\"me\":1}''
   \<and> decrypt_session fake_runtime (Some '' s3cret '')
        (Some (hd (exportTokensFromCreds encrypted_defaults fake_runtime ''{\"me\":1}'')))
       = Inr ''{\"me\":1}''"
proof -
  have a: "EXPORT_ENCRYPTED encrypted_defaults" by (simp add: encrypted_defaults_def)
  have b: "SESSION_SECRET encrypted_defaults = trim '' s3cret ''" by code_simp
  have c: "trim '' s3cret '' \<noteq> []" by code_simp
  have d: "runtime_roundtrip encrypted_defaults fake_runtime ''{\"me\":1}''" by code_simp
  from C2_encrypted_roundtrip [OF a b c d]
  have e: "decrypt_session fake_runtime (Some '' s3cret '')
        (Some (hd (exportTokensFromCreds encrypted_defaults fake_runtime ''{\"me\":1}'')))
       = Inr ''{\"me\":1}''" by blast
  show ?thesis by (intro conjI a b d e)
qed

subsection \<open>The session machine\<close>

lemma stale_update_ignored:
  "sock (heap w r) \<noteq> Some h \<Longrightarrow> onConnectionUpdate cfg dr r h u w = w"
  by (simp add: onConnectionUpdate_def)

lemma stale_request_dropped:
  "sock (heap w r) \<noteq> Some h \<Longrightarrow> resume cfg dr rt (SP_settle r h) out w = w"
  by simp

lemma retry_ends_current_handle:
  "sock (heap w r) = Some h \<Longrightarrow>
   h \<notin> live (retry_begin cfg kEnd kDelay r w)
   \<and> end_calls (retry_begin cfg kEnd kDelay r w) = end_calls w @ [h]
   \<and> pending (retry_begin cfg kEnd kDelay r w) = pending w @ [kEnd]"
  by (simp add: retry_begin_def Let_def emit_def emitter_emit_def obj_def sock_end_def suspend_def)

lemma startPairing_overwrites_handle:
  "sock (heap (openSocket r w) r) = Some (next_handle w)
   \<and> live (openSocket r w) = insert (next_handle w) (live w)
   \<and> end_calls (openSocket r w) = end_calls w"
  by (simp add: openSocket_def Let_def emit_def emitter_emit_def obj_def suspend_def)

lemma resume_at:
  "i < length (pending w) \<Longrightarrow>
   step cfg dr rt (Resume i out) w
   = resume cfg dr rt (pending w ! i) out
       (w\<lparr> pending := take i (pending w) @ drop (Suc i) (pending w) \<rparr>)"
  by (simp add: step_def)

lemma removed_facts:
  "let w = world_removed in
     0 < length (pending w) \<and> pending w ! 0 = CU_backoff 0 4000
     \<and> \<not> sessions_has (sid (heap w 0)) w
     \<and> take 0 (pending w) @ drop (Suc 0) (pending w) = []
     \<and> live w = {} \<and> armed w = {}"
  by code_simp

text \<open>
  C3. When the delay of a retry elapses and the session is no longer in the registry,
  the resumed code returns at once, in the close branch and in the branch of
  \<^verbatim>\<open>requestPairingCode\<close> alike: the world is as before, less the continuation that
  has run. No handle is opened, no timer is armed, the session object is not written
  to, and nothing is left pending for it.
\<close>

theorem C3_retry_aborts_after_removal:
  assumes "i < length (pending w)"
    and "pending w ! i = CU_backoff r ms \<or> pending w ! i = SP_backoff r ms"
    and "\<not> sessions_has (sid (heap w r)) w"
  shows "step cfg dr rt (Resume i out) w
           = w\<lparr> pending := take i (pending w) @ drop (Suc i) (pending w) \<rparr>
    \<and> live (step cfg dr rt (Resume i out) w) = live w
    \<and> next_handle (step cfg dr rt (Resume i out) w) = next_handle w
    \<and> armed (step cfg dr rt (Resume i out) w) = armed w
    \<and> next_timer (step cfg dr rt (Resume i out) w) = next_timer w
    \<and> heap (step cfg dr rt (Resume i out) w) = heap w
    \<and> length (pending (step cfg dr rt (Resume i out) w)) < length (pending w)"
proof -
  have "step cfg dr rt (Resume i out) w
          = w\<lparr> pending := take i (pending w) @ drop (Suc i) (pending w) \<rparr>"
    using assms by (auto simp: resume_at retry_resume_def sessions_has_def)
  moreover have "length (take i (pending w) @ drop (Suc i) (pending w)) < length (pending w)"
    using assms(1) by simp
  ultimately show ?thesis by simp
qed


theorem C3_retry_aborts_after_removal_witness:
  "0 < length (pending world_removed) \<and> pending world_removed ! 0 = CU_backoff 0 4000
   \<and> \<not> sessions_has (sid (heap world_removed 0)) world_removed
   \<and> step defaults baileys fake_runtime (Resume 0 finished) world_removed
       = world_removed\<lparr> pending := [] \<rparr>
   \<and> live (step defaults baileys fake_runtime (Resume 0 finished) world_removed) = {}
   \<and> armed (step defaults baileys fake_runtime (Resume 0 finished) world_removed) = {}"
proof -
  note f = removed_facts [unfolded Let_def]
  have a: "0 < length (pending world_removed)"
    and b: "pending world_removed ! 0 = CU_backoff 0 4000"
    and c: "\<not> sessions_has (sid (heap world_removed 0)) world_removed"
    using f by simp_all
  note t = C3_retry_aborts_after_removal [OF a disjI1 [OF b] c, of defaults baileys fake_runtime finished]
  from t f have d: "step defaults baileys fake_runtime (Resume 0 finished) world_removed
       = world_removed\<lparr> pending := [] \<rparr>" by simp
  from t f have g: "live (step defaults baileys fake_runtime (Resume 0 finished) world_removed) = {}"
    and h: "armed (step defaults baileys fake_runtime (Resume 0 finished) world_removed) = {}"
    by simp_all
  show ?thesis by (intro conjI a b c d g h)
qed

subsection \<open>Cleanup\<close>

lemma delete_twice: "AList.delete k (AList.delete k al) = AList.delete k al"
  by (simp add: AList.delete_idem)

lemma absent_after_delete: "map_of (AList.delete k al) k = None"
  by (simp add: AList.delete_conv')

lemma clear_both:
  "(case timers_idle s of
      Some t \<Rightarrow> clearTimeout t (case timers_ttl s of Some t \<Rightarrow> clearTimeout t w | None \<Rightarrow> w)
    | None \<Rightarrow> (case timers_ttl s of Some t \<Rightarrow> clearTimeout t w | None \<Rightarrow> w))
   = w\<lparr> armed := armed w - set_option (timers_ttl s) - set_option (timers_idle s) \<rparr>"
  by (cases "timers_ttl s"; cases "timers_idle s") (simp_all add: clearTimeout_def)

lemma cleanupSession_eq:
  "cleanupSession r w =
     (case sock (heap w r) of
        Some h \<Rightarrow>
          w\<lparr> armed := armed w - set_option (timers_ttl (heap w r)) - set_option (timers_idle (heap w r)),
             end_calls := end_calls w @ [h], live := live w - {h},
             pending := pending w @ [CL_end r] \<rparr>
      | None \<Rightarrow>
          w\<lparr> armed := armed w - set_option (timers_ttl (heap w r)) - set_option (timers_idle (heap w r)),
             remove_calls := remove_calls w @ [dir (heap w r)],
             pending := pending w @ [CL_remove r] \<rparr>)"
  by (simp add: cleanupSession_def Let_def clear_both suspend_def sock_end_def fs_remove_def
      split: option.splits)

lemma resume_end_eq:
  assumes "i < length (pending w)" "pending w ! i = CL_end r"
  shows "step cfg dr rt (Resume i out) w =
           w\<lparr> remove_calls := remove_calls w @ [dir (heap w r)],
              pending := take i (pending w) @ drop (Suc i) (pending w) @ [CL_remove r] \<rparr>"
  using assms by (simp add: step_def cleanup_after_end_def suspend_def fs_remove_def)

lemma resume_remove_eq:
  assumes "i < length (pending w)" "pending w ! i = CL_remove r"
  shows "step cfg dr rt (Resume i out) w =
           w\<lparr> dirs := (case out of Resolved x \<Rightarrow> dirs w - {dir (heap w r)} | Rejected e \<Rightarrow> dirs w),
              creds := (case out of Resolved x \<Rightarrow> (creds w)(dir (heap w r) := None)
                        | Rejected e \<Rightarrow> creds w),
              sessions := AList.delete (sid (heap w r)) (sessions w),
              pending := take i (pending w) @ drop (Suc i) (pending w) \<rparr>"
  using assms
  by (cases out) (simp_all add: step_def cleanup_after_remove_def sessions_delete_def Let_def)

lemma cleanup_to_completion_eq:
  "cleanup_to_completion cfg dr rt r out w =
     w\<lparr> armed := armed w - set_option (timers_ttl (heap w r)) - set_option (timers_idle (heap w r)),
        live := live w - set_option (sock (heap w r)),
        end_calls := end_calls w @ (case sock (heap w r) of Some h \<Rightarrow> [h] | None \<Rightarrow> []),
        remove_calls := remove_calls w @ [dir (heap w r)],
        dirs := (case out of Resolved x \<Rightarrow> dirs w - {dir (heap w r)} | Rejected e \<Rightarrow> dirs w),
        creds := (case out of Resolved x \<Rightarrow> (creds w)(dir (heap w r) := None)
                  | Rejected e \<Rightarrow> creds w),
        sessions := AList.delete (sid (heap w r)) (sessions w) \<rparr>"
proof (cases "sock (heap w r)")
  case None
  then show ?thesis
    by (cases out)
       (simp_all add: cleanup_to_completion_def cleanupSession_def Let_def clear_both step_def
        cleanup_after_remove_def suspend_def fs_remove_def sessions_delete_def)
next
  case (Some h)
  then show ?thesis
    by (cases out)
       (simp_all add: cleanup_to_completion_def cleanupSession_def Let_def clear_both step_def
        cleanup_after_end_def cleanup_after_remove_def suspend_def fs_remove_def sock_end_def
        sessions_delete_def)
qed

lemma cleanup_call:
  "(let s = heap w r; w1 = cleanupSession r w in
      armed w1 = armed w - set_option (timers_ttl s) - set_option (timers_idle s)
    \<and> (\<forall>h. sock s = Some h \<longrightarrow>
          end_calls w1 = end_calls w @ [h] \<and> live w1 = live w - {h}
          \<and> remove_calls w1 = remove_calls w \<and> pending w1 = pending w @ [CL_end r])
    \<and> (sock s = None \<longrightarrow>
          end_calls w1 = end_calls w \<and> live w1 = live w
          \<and> remove_calls w1 = remove_calls w @ [dir s] \<and> pending w1 = pending w @ [CL_remove r])
    \<and> sessions w1 = sessions w \<and> heap w1 = heap w \<and> dirs w1 = dirs w
    \<and> (\<forall>h. sock s = Some h \<longrightarrow>
          end_calls (cleanupSession r w1) = end_calls w @ [h, h]
          \<and> pending (cleanupSession r w1) = pending w @ [CL_end r, CL_end r]))"
proof (cases "sock (heap w r)")
  case None
  then show ?thesis by (simp add: Let_def cleanupSession_eq [of r w])
next
  case (Some h)
  have 1: "cleanupSession r w =
      w\<lparr> armed := armed w - set_option (timers_ttl (heap w r)) - set_option (timers_idle (heap w r)),
         end_calls := end_calls w @ [h], live := live w - {h},
         pending := pending w @ [CL_end r] \<rparr>"
    using Some by (simp add: cleanupSession_eq [of r w])
  have 2: "sock (heap (cleanupSession r w) r) = Some h" using Some by (simp add: 1)
  have 3: "end_calls (cleanupSession r (cleanupSession r w)) = end_calls w @ [h, h]"
    "pending (cleanupSession r (cleanupSession r w)) = pending w @ [CL_end r, CL_end r]"
    using 2 by (simp_all add: cleanupSession_eq [of r "cleanupSession r w"]) (simp_all add: 1)
  show ?thesis using Some 3 by (simp add: Let_def 1)
qed

lemma cleanup_second_segment:
  "i < length (pending w) \<and> pending w ! i = CL_end r \<longrightarrow>
     (let w2 = step cfg dr rt (Resume i out) w in
        remove_calls w2 = remove_calls w @ [dir (heap w r)]
      \<and> pending w2 = take i (pending w) @ drop (Suc i) (pending w) @ [CL_remove r]
      \<and> sessions w2 = sessions w \<and> armed w2 = armed w \<and> live w2 = live w
      \<and> end_calls w2 = end_calls w \<and> dirs w2 = dirs w \<and> heap w2 = heap w)"
  by (simp add: Let_def resume_end_eq)

lemma cleanup_last_segment:
  "i < length (pending w) \<and> pending w ! i = CL_remove r \<longrightarrow>
     (let w3 = step cfg dr rt (Resume i out) w in
        sessions w3 = AList.delete (sid (heap w r)) (sessions w)
      \<and> \<not> sessions_has (sid (heap w r)) w3
      \<and> ((\<exists>x. out = Resolved x) \<longrightarrow> dirs w3 = dirs w - {dir (heap w r)})
      \<and> ((\<exists>e. out = Rejected e) \<longrightarrow> dirs w3 = dirs w)
      \<and> pending w3 = take i (pending w) @ drop (Suc i) (pending w)
      \<and> armed w3 = armed w \<and> live w3 = live w \<and> end_calls w3 = end_calls w
      \<and> remove_calls w3 = remove_calls w \<and> heap w3 = heap w)"
  by (auto simp: Let_def resume_remove_eq sessions_has_def absent_after_delete)

lemma cleanup_uninterrupted:
  "(let s = heap w r;
        w1 = cleanup_to_completion cfg dr rt r out1 w;
        w2 = cleanup_to_completion cfg dr rt r out2 w1
    in (\<forall>t. timers_ttl s = Some t \<longrightarrow> t \<notin> armed w1)
     \<and> (\<forall>t. timers_idle s = Some t \<longrightarrow> t \<notin> armed w1)
     \<and> (\<forall>h. sock s = Some h \<longrightarrow> h \<notin> live w1 \<and> end_calls w1 = end_calls w @ [h])
     \<and> (sock s = None \<longrightarrow> end_calls w1 = end_calls w)
     \<and> remove_calls w1 = remove_calls w @ [dir s]
     \<and> ((\<exists>x. out1 = Resolved x) \<longrightarrow> dir s \<notin> dirs w1)
     \<and> ((\<exists>e. out1 = Rejected e) \<longrightarrow> dirs w1 = dirs w)
     \<and> \<not> sessions_has (sid s) w1
     \<and> armed w2 = armed w1 \<and> live w2 = live w1
     \<and> sessions w2 = sessions w1 \<and> heap w2 = heap w1 \<and> pending w2 = pending w1
     \<and> dirs w2 \<subseteq> dirs w1 \<and> ((\<exists>x. out1 = Resolved x) \<longrightarrow> dirs w2 = dirs w1)
     \<and> remove_calls w2 = remove_calls w1 @ [dir s]
     \<and> (\<forall>h. sock s = Some h \<longrightarrow> end_calls w2 = end_calls w1 @ [h]))"
proof -
  define s where "s = heap w r"
  define w1 where "w1 = cleanup_to_completion cfg dr rt r out1 w"
  define w2 where "w2 = cleanup_to_completion cfg dr rt r out2 w1"
  note e1 = cleanup_to_completion_eq [of cfg dr rt r out1 w, folded w1_def s_def]
  have h1: "heap w1 r = s" by (simp add: e1 s_def)
  note e2 = cleanup_to_completion_eq [of cfg dr rt r out2 w1, folded w2_def, unfolded h1]
  have a: "\<forall>t. timers_ttl s = Some t \<longrightarrow> t \<notin> armed w1"
    and b: "\<forall>t. timers_idle s = Some t \<longrightarrow> t \<notin> armed w1"
    and c: "\<forall>h. sock s = Some h \<longrightarrow> h \<notin> live w1 \<and> end_calls w1 = end_calls w @ [h]"
    and d: "sock s = None \<longrightarrow> end_calls w1 = end_calls w"
    and e: "remove_calls w1 = remove_calls w @ [dir s]"
    and f: "\<not> sessions_has (sid s) w1"
    by (simp_all add: e1 sessions_has_def absent_after_delete)
  have e': "(\<exists>x. out1 = Resolved x) \<longrightarrow> dir s \<notin> dirs w1"
    "(\<exists>e. out1 = Rejected e) \<longrightarrow> dirs w1 = dirs w"
    by (auto simp: e1)
  have g: "armed w2 = armed w1" "live w2 = live w1"
    "sessions w2 = sessions w1" "heap w2 = heap w1" "pending w2 = pending w1"
    by (auto simp: e2 e1 delete_twice)
  have g': "dirs w2 \<subseteq> dirs w1" "(\<exists>x. out1 = Resolved x) \<longrightarrow> dirs w2 = dirs w1"
    by (cases out2; auto simp: e2 e1)+
  have h: "remove_calls w2 = remove_calls w1 @ [dir s]"
    "\<forall>h. sock s = Some h \<longrightarrow> end_calls w2 = end_calls w1 @ [h]"
    by (simp_all add: e2)
  show ?thesis
    unfolding Let_def s_def [symmetric] w1_def [symmetric] w2_def [symmetric]
    by (intro conjI a b c d e e' f g g' h)
qed

text \<open>
  C7, as the code has it. \<^verbatim>\<open>cleanupSession\<close> has no guard, and it runs in three
  steps with an \<^verbatim>\<open>await\<close> between them; other handlers may run in between. The
  statement has four parts, each for every state of the server.

  \<^item> The call itself cancels the two timers of the session and, when the session
    holds a handle, calls \<^verbatim>\<open>end()\<close> on it and waits; without a handle it calls
    \<^verbatim>\<open>fs.remove\<close> on the working directory and waits. The registry, the session
    object and the directories are as before: the session is still found. A second
    call while the first one waits calls \<^verbatim>\<open>end()\<close> on the same handle again.
  \<^item> When \<^verbatim>\<open>end()\<close> has returned, however it returned, \<^verbatim>\<open>fs.remove\<close> is called and
    waited for. The registry is still as before; no timer is cancelled and no handle
    is ended in this step.
  \<^item> When \<^verbatim>\<open>fs.remove\<close> has returned, the session is deleted from the registry,
    whether the removal succeeded or failed; the directory is gone only when it
    succeeded. No timer is cancelled and no handle is ended in this step.
  \<^item> A cleanup that runs its three steps with nothing in between leaves the two
    timers of the session cancelled, its handle ended, \<^verbatim>\<open>fs.remove\<close> called once and
    the session out of the registry. A second such run calls \<^verbatim>\<open>end()\<close> and
    \<^verbatim>\<open>fs.remove\<close> once more and leaves timers, live handles, registry, session
    objects and pending work as the first one left them; the directories too when the
    first removal succeeded.
\<close>

theorem C7_cleanup_effects:
  "(let s = heap w r; w1 = cleanupSession r w in
      armed w1 = armed w - set_option (timers_ttl s) - set_option (timers_idle s)
    \<and> (\<forall>h. sock s = Some h \<longrightarrow>
          end_calls w1 = end_calls w @ [h] \<and> live w1 = live w - {h}
          \<and> remove_calls w1 = remove_calls w \<and> pending w1 = pending w @ [CL_end r])
    \<and> (sock s = None \<longrightarrow>
          end_calls w1 = end_calls w \<and> live w1 = live w
          \<and> remove_calls w1 = remove_calls w @ [dir s] \<and> pending w1 = pending w @ [CL_remove r])
    \<and> sessions w1 = sessions w \<and> heap w1 = heap w \<and> dirs w1 = dirs w
    \<and> (\<forall>h. sock s = Some h \<longrightarrow>
          end_calls (cleanupSession r w1) = end_calls w @ [h, h]
          \<and> pending (cleanupSession r w1) = pending w @ [CL_end r, CL_end r]))
   \<and> (i < length (pending w) \<and> pending w ! i = CL_end r \<longrightarrow>
     (let w2 = step cfg dr rt (Resume i out) w in
        remove_calls w2 = remove_calls w @ [dir (heap w r)]
      \<and> pending w2 = take i (pending w) @ drop (Suc i) (pending w) @ [CL_remove r]
      \<and> sessions w2 = sessions w \<and> armed w2 = armed w \<and> live w2 = live w
      \<and> end_calls w2 = end_calls w \<and> dirs w2 = dirs w \<and> heap w2 = heap w))
   \<and> (i < length (pending w) \<and> pending w ! i = CL_remove r \<longrightarrow>
     (let w3 = step cfg dr rt (Resume i out) w in
        sessions w3 = AList.delete (sid (heap w r)) (sessions w)
      \<and> \<not> sessions_has (sid (heap w r)) w3
      \<and> ((\<exists>x. out = Resolved x) \<longrightarrow> dirs w3 = dirs w - {dir (heap w r)})
      \<and> ((\<exists>e. out = Rejected e) \<longrightarrow> dirs w3 = dirs w)
      \<and> pending w3 = take i (pending w) @ drop (Suc i) (pending w)
      \<and> armed w3 = armed w \<and> live w3 = live w \<and> end_calls w3 = end_calls w
      \<and> remove_calls w3 = remove_calls w \<and> heap w3 = heap w))
   \<and> (let s = heap w r;
        w1 = cleanup_to_completion cfg dr rt r out1 w;
        w2 = cleanup_to_completion cfg dr rt r out2 w1
    in (\<forall>t. timers_ttl s = Some t \<longrightarrow> t \<notin> armed w1)
     \<and> (\<forall>t. timers_idle s = Some t \<longrightarrow> t \<notin> armed w1)
     \<and> (\<forall>h. sock s = Some h \<longrightarrow> h \<notin> live w1 \<and> end_calls w1 = end_calls w @ [h])
     \<and> (sock s = None \<longrightarrow> end_calls w1 = end_calls w)
     \<and> remove_calls w1 = remove_calls w @ [dir s]
     \<and> ((\<exists>x. out1 = Resolved x) \<longrightarrow> dir s \<notin> dirs w1)
     \<and> ((\<exists>e. out1 = Rejected e) \<longrightarrow> dirs w1 = dirs w)
     \<and> \<not> sessions_has (sid s) w1
     \<and> armed w2 = armed w1 \<and> live w2 = live w1
     \<and> sessions w2 = sessions w1 \<and> heap w2 = heap w1 \<and> pending w2 = pending w1
     \<and> dirs w2 \<subseteq> dirs w1 \<and> ((\<exists>x. out1 = Resolved x) \<longrightarrow> dirs w2 = dirs w1)
     \<and> remove_calls w2 = remove_calls w1 @ [dir s]
     \<and> (\<forall>h. sock s = Some h \<longrightarrow> end_calls w2 = end_calls w1 @ [h]))"
  by (intro conjI cleanup_call cleanup_second_segment cleanup_last_segment cleanup_uninterrupted)

lemma waiting_facts:
  "let w = world_waiting in
     timers_ttl (heap w 0) = Some 0 \<and> timers_idle (heap w 0) = Some 1 \<and> sock (heap w 0) = Some 0
     \<and> armed w = {0, 1} \<and> live w = {0} \<and> end_calls w = [] \<and> remove_calls w = []
     \<and> pending w = []
     \<and> dir (heap w 0) = ''temp/sess_0_6162636465666768''
     \<and> sid (heap w 0) = ''sess_0_6162636465666768''
     \<and> sessions_has ''sess_0_6162636465666768'' w"
  by code_simp

lemma expiring_facts:
  "let w = world_expiring in
     end_calls w = [0] \<and> remove_calls w = [''temp/sess_0_6162636465666768''] \<and> armed w = {}
     \<and> map_of (sessions w) ''sess_0_6162636465666768'' = Some 0
     \<and> get_events_status defaults ''sess_0_6162636465666768'' None w = 200
     \<and> pending w = [CL_remove 0] \<and> sid (heap w 0) = ''sess_0_6162636465666768''
     \<and> dir (heap w 0) = ''temp/sess_0_6162636465666768''
     \<and> dirs w = {''temp/sess_0_6162636465666768''}"
  by code_simp

lemma removed_session_facts:
  "let w = world_removed in
     sock (heap w 0) = None \<and> end_calls w = [0]
     \<and> remove_calls w = [''temp/sess_0_6162636465666768'']
     \<and> dir (heap w 0) = ''temp/sess_0_6162636465666768''"
  by code_simp

theorem C7_cleanup_effects_witness:
  "sock (heap world_waiting 0) = Some 0
   \<and> sessions_has ''sess_0_6162636465666768'' world_waiting
   \<and> armed (cleanupSession 0 world_waiting) = {}
   \<and> end_calls (cleanupSession 0 world_waiting) = [0]
   \<and> pending (cleanupSession 0 world_waiting) = [CL_end 0]
   \<and> sessions_has ''sess_0_6162636465666768'' (cleanupSession 0 world_waiting)
   \<and> end_calls (cleanupSession 0 (cleanupSession 0 world_waiting)) = [0, 0]
   \<and> sock (heap world_removed 0) = None
   \<and> end_calls (cleanupSession 0 world_removed) = [0]
   \<and> remove_calls (cleanupSession 0 world_removed)
       = [''temp/sess_0_6162636465666768'', ''temp/sess_0_6162636465666768'']
   \<and> remove_calls (step defaults baileys fake_runtime (Resume 0 finished)
                      (cleanupSession 0 world_waiting)) = [''temp/sess_0_6162636465666768'']
   \<and> pending world_expiring ! 0 = CL_remove 0
   \<and> \<not> sessions_has ''sess_0_6162636465666768''
         (step defaults baileys fake_runtime (Resume 0 (Rejected (boom 0))) world_expiring)
   \<and> dirs (step defaults baileys fake_runtime (Resume 0 (Rejected (boom 0))) world_expiring)
       = {''temp/sess_0_6162636465666768''}
   \<and> dirs (step defaults baileys fake_runtime (Resume 0 finished) world_expiring) = {}
   \<and> 0 \<notin> armed (cleanup_to_completion defaults baileys fake_runtime 0 finished world_waiting)
   \<and> 1 \<notin> armed (cleanup_to_completion defaults baileys fake_runtime 0 finished world_waiting)
   \<and> 0 \<notin> live (cleanup_to_completion defaults baileys fake_runtime 0 finished world_waiting)
   \<and> end_calls (cleanup_to_completion defaults baileys fake_runtime 0 finished world_waiting) = [0]
   \<and> remove_calls (cleanup_to_completion defaults baileys fake_runtime 0 finished world_waiting)
       = [''temp/sess_0_6162636465666768'']
   \<and> \<not> sessions_has ''sess_0_6162636465666768''
         (cleanup_to_completion defaults baileys fake_runtime 0 finished world_waiting)
   \<and> end_calls (cleanup_to_completion defaults baileys fake_runtime 0 finished
                   (cleanup_to_completion defaults baileys fake_runtime 0 finished world_waiting))
       = [0, 0]"
proof -
  note f = waiting_facts [unfolded Let_def]
  note x = expiring_facts [unfolded Let_def]
  note y = removed_session_facts [unfolded Let_def]
  note t = C7_cleanup_effects [where w = world_waiting and r = 0 and cfg = defaults and dr = baileys
      and rt = fake_runtime and ?out1.0 = finished and ?out2.0 = finished, unfolded Let_def]
  note tA = t [THEN conjunct1]
  note tD = t [THEN conjunct2, THEN conjunct2, THEN conjunct2]
  have a: "sock (heap world_waiting 0) = Some 0"
    "sessions_has ''sess_0_6162636465666768'' world_waiting"
    using f by simp_all
  have b: "armed (cleanupSession 0 world_waiting) = {}"
    "end_calls (cleanupSession 0 world_waiting) = [0]"
    "pending (cleanupSession 0 world_waiting) = [CL_end 0]"
    "end_calls (cleanupSession 0 (cleanupSession 0 world_waiting)) = [0, 0]"
    using tA f by auto
  have b': "sessions_has ''sess_0_6162636465666768'' (cleanupSession 0 world_waiting)"
    using tA f by (simp add: sessions_has_def)
  have b'': "remove_calls (cleanupSession 0 world_waiting) = []"
    "heap (cleanupSession 0 world_waiting) = heap world_waiting"
    using tA f by auto
  note n = C7_cleanup_effects [where w = world_removed and r = 0, unfolded Let_def, THEN conjunct1]
  have m: "sock (heap world_removed 0) = None" using y by simp
  have m': "end_calls (cleanupSession 0 world_removed) = [0]"
    "remove_calls (cleanupSession 0 world_removed)
       = [''temp/sess_0_6162636465666768'', ''temp/sess_0_6162636465666768'']"
    using n y by simp_all
  note u = C7_cleanup_effects [where w = "cleanupSession 0 world_waiting" and r = 0 and i = 0
      and cfg = defaults and dr = baileys and rt = fake_runtime and out = finished,
      unfolded Let_def, THEN conjunct2, THEN conjunct1]
  have c: "remove_calls (step defaults baileys fake_runtime (Resume 0 finished)
                      (cleanupSession 0 world_waiting)) = [''temp/sess_0_6162636465666768'']"
    using u b b'' f by simp
  note v = C7_cleanup_effects [where w = world_expiring and r = 0 and i = 0
      and cfg = defaults and dr = baileys and rt = fake_runtime and out = "Rejected (boom 0)",
      unfolded Let_def, THEN conjunct2, THEN conjunct2, THEN conjunct1]
  note v' = C7_cleanup_effects [where w = world_expiring and r = 0 and i = 0
      and cfg = defaults and dr = baileys and rt = fake_runtime and out = finished,
      unfolded Let_def, THEN conjunct2, THEN conjunct2, THEN conjunct1]
  have d: "pending world_expiring ! 0 = CL_remove 0" using x by simp
  have e: "\<not> sessions_has ''sess_0_6162636465666768''
         (step defaults baileys fake_runtime (Resume 0 (Rejected (boom 0))) world_expiring)"
    "dirs (step defaults baileys fake_runtime (Resume 0 (Rejected (boom 0))) world_expiring)
       = {''temp/sess_0_6162636465666768''}"
    using v x by auto
  have e': "dirs (step defaults baileys fake_runtime (Resume 0 finished) world_expiring) = {}"
    using v' x by (simp add: finished_def)
  have g: "0 \<notin> armed (cleanup_to_completion defaults baileys fake_runtime 0 finished world_waiting)"
    "1 \<notin> armed (cleanup_to_completion defaults baileys fake_runtime 0 finished world_waiting)"
    "0 \<notin> live (cleanup_to_completion defaults baileys fake_runtime 0 finished world_waiting)"
    "end_calls (cleanup_to_completion defaults baileys fake_runtime 0 finished world_waiting) = [0]"
    "remove_calls (cleanup_to_completion defaults baileys fake_runtime 0 finished world_waiting)
       = [''temp/sess_0_6162636465666768'']"
    "\<not> sessions_has ''sess_0_6162636465666768''
         (cleanup_to_completion defaults baileys fake_runtime 0 finished world_waiting)"
    using tD f by simp_all
  have h: "end_calls (cleanup_to_completion defaults baileys fake_runtime 0 finished
                   (cleanup_to_completion defaults baileys fake_runtime 0 finished world_waiting))
       = [0, 0]"
    using tD f by simp
  show ?thesis by (intro conjI a b(1-3) b' b(4) m m' c d e e' g h)
qed

lemma swept_facts:
  "let w = world_swept in
     end_calls w = [0, 0]
     \<and> remove_calls w = [''temp/sess_0_6162636465666768'', ''temp/sess_0_6162636465666768'']"
  by code_simp

text \<open>
  The claim as stated fails on two counts. After the TTL timer has fired and the
  cleanup has called \<^verbatim>\<open>end()\<close> and \<^verbatim>\<open>fs.remove\<close>, the session is still found by the
  lookup of the event route, which answers 200. And when the sweep comes by at that
  moment, \<^verbatim>\<open>end()\<close> and \<^verbatim>\<open>fs.remove\<close> are each called a second time.
\<close>

theorem C7_counterexample:
  "end_calls world_expiring = [0]
   \<and> remove_calls world_expiring = [''temp/sess_0_6162636465666768'']
   \<and> armed world_expiring = {}
   \<and> map_of (sessions world_expiring) ''sess_0_6162636465666768'' = Some 0
   \<and> get_events_status defaults ''sess_0_6162636465666768'' None world_expiring = 200
   \<and> end_calls world_swept = [0, 0]
   \<and> remove_calls world_swept = [''temp/sess_0_6162636465666768'', ''temp/sess_0_6162636465666768'']"
  using expiring_facts swept_facts by (simp add: Let_def)

text \<open>
  Other handlers run between the steps of a cleanup. When the close of the connection
  is reported after the cleanup of the expiry has called \<^verbatim>\<open>end()\<close>, the handler
  finds its handle still in the session: it re-arms the idle timer and starts a retry,
  which calls \<^verbatim>\<open>end()\<close> again. The cleanup then goes on and deletes the session; the
  retry gives up after its delay. At the end the session is gone and the idle timer is
  still armed.
\<close>

lemma timer_armed_after_cleanup:
  "let w = world_closed_during_cleanup in
     sessions w = [] \<and> pending w = [] \<and> armed w = {2} \<and> end_calls w = [0, 0]
     \<and> remove_calls w = [''temp/sess_0_6162636465666768'']"
  by code_simp


subsection \<open>One handle per session\<close>

lemma double_facts:
  "let w = world_double in
     live_handles 0 w = {1, 2} \<and> sock (heap w 0) = Some 2
     \<and> map_of (sessions w) (sid (heap w 0)) = Some 0 \<and> end_calls w = [0]"
  by code_simp

text \<open>
  C1 does not hold of the code. In the run \<open>double_retry\<close> one loss of connection
  starts two retries, one from the close event and one from the rejected
  \<^verbatim>\<open>requestPairingCode\<close>; each calls \<^verbatim>\<open>startPairing\<close> when its delay has elapsed, and
  \<^verbatim>\<open>startPairing\<close> overwrites the handle field without ending what it holds. At the
  end the session, still in the registry, has two live handles: handle 2 in its field
  and handle 1, which nothing will end. Only handle 0 was ever ended.
\<close>

theorem C1_two_live_handles:
  "live_handles 0 world_double = {1, 2}
   \<and> sock (heap world_double 0) = Some 2
   \<and> map_of (sessions world_double) (sid (heap world_double 0)) = Some 0
   \<and> end_calls world_double = [0]"
  using double_facts by (simp add: Let_def)

end
